theory Spec2Isabelle
  imports Complex_Main
begin

section \<open>Python and numpy values\<close>

text \<open>
  The simulator is Python over numpy. Floats are modelled as \<^typ>\<open>real\<close>, Python ints as
  \<^typ>\<open>int\<close>, one-dimensional arrays and lists as \<^typ>\<open>real list\<close>, two-dimensional arrays
  as lists of rows. Every exception the modelled code can raise is a value of
  \<open>py_error\<close>, and a function that can raise returns \<open>py_error + 'a\<close>.
\<close>

datatype py_error = ZeroDivisionError | IndexError | ValueError

definition ebind :: "py_error + 'a \<Rightarrow> ('a \<Rightarrow> py_error + 'b) \<Rightarrow> py_error + 'b" where
  "ebind m f = (case m of Inl e \<Rightarrow> Inl e | Inr v \<Rightarrow> f v)"

text \<open>
  An elementwise binary operation on two one-dimensional arrays: numpy broadcasts an
  array of length 1 against the other one and raises ValueError on any other mismatch.
\<close>

definition np_broadcast2 :: "(real \<Rightarrow> real \<Rightarrow> real) \<Rightarrow> real list \<Rightarrow> real list \<Rightarrow> py_error + real list" where
  "np_broadcast2 f xs ys =
     (if length xs = length ys then Inr (map2 f xs ys)
      else if length xs = 1 then Inr (map (f (hd xs)) ys)
      else if length ys = 1 then Inr (map (\<lambda>x. f x (hd ys)) xs)
      else Inl ValueError)"

text \<open>
  \<open>M[i, :] = v\<close>: the row is replaced by \<open>v\<close>, a \<open>v\<close> of length 1 is broadcast over
  the row, any other length raises ValueError.
\<close>

definition np_assign_row :: "real list list \<Rightarrow> nat \<Rightarrow> real list \<Rightarrow> py_error + real list list" where
  "np_assign_row M i v =
     (if length M \<le> i then Inl IndexError
      else if length v = length (M ! i) then Inr (M[i := v])
      else if length v = 1 then Inr (M[i := replicate (length (M ! i)) (hd v)])
      else Inl ValueError)"

text \<open>\<open>M[i, j] = v\<close> for indices in range.\<close>

definition mat_set :: "real list list \<Rightarrow> nat \<Rightarrow> nat \<Rightarrow> real \<Rightarrow> real list list" where
  "mat_set M i j v = M[i := (M ! i)[j := v]]"

text \<open>\<open>M[:k] = v\<close>: every entry of the first \<open>k\<close> rows that exist becomes \<open>v\<close>.\<close>

definition np_fill_rows :: "real list list \<Rightarrow> nat \<Rightarrow> real \<Rightarrow> real list list" where
  "np_fill_rows M k v = map (\<lambda>row. map (\<lambda>_. v) row) (take k M) @ drop k M"

definition zeros :: "nat \<Rightarrow> real list" where
  "zeros n = replicate n 0"

definition zeros2 :: "nat \<Rightarrow> nat \<Rightarrow> real list list" where
  "zeros2 n m = replicate n (replicate m 0)"

definition radians :: "real \<Rightarrow> real" where
  "radians d = d * pi / 180"

text \<open>\<open>numpy.arctan2\<close> on finite reals (signed zeros are a floating-point matter).\<close>

definition arctan2 :: "real \<Rightarrow> real \<Rightarrow> real" where
  "arctan2 y x =
     (if 0 < x then arctan (y / x)
      else if x < 0 then (if 0 \<le> y then arctan (y / x) + pi else arctan (y / x) - pi)
      else if 0 < y then pi / 2
      else if y < 0 then - (pi / 2)
      else 0)"

text \<open>Python's \<open>round\<close> of a float to an int: halves go to the even neighbour.\<close>

definition py_round :: "real \<Rightarrow> int" where
  "py_round v =
     (let f = \<lfloor>v\<rfloor>; d = v - of_int f
      in if d < 1 / 2 then f else if 1 / 2 < d then f + 1 else if even f then f else f + 1)"

subsection \<open>Strings\<close>

text \<open>\<open>str(n)\<close> for an int, as the f-string \<open>f"Case {case_number}"\<close> renders it.\<close>

definition digit_char :: "nat \<Rightarrow> char" where
  "digit_char d = ''0123456789'' ! d"

function str_nat :: "nat \<Rightarrow> string" where
  "str_nat n = (if n < 10 then [digit_char n] else str_nat (n div 10) @ [digit_char (n mod 10)])"
  by pat_completeness auto
termination
  by (relation "measure id") auto

declare str_nat.simps [simp del]

definition str_int :: "int \<Rightarrow> string" where
  "str_int k = (if k < 0 then CHR ''-'' # str_nat (nat (- k)) else str_nat (nat k))"

text \<open>\<open>str.lower\<close> and \<open>str.upper\<close> on the ASCII letters, and \<open>sub in s\<close>.\<close>

definition lower_char :: "char \<Rightarrow> char" where
  "lower_char ch =
     (case map_of (zip ''ABCDEFGHIJKLMNOPQRSTUVWXYZ'' ''abcdefghijklmnopqrstuvwxyz'') ch of
        Some l \<Rightarrow> l | None \<Rightarrow> ch)"

definition upper_char :: "char \<Rightarrow> char" where
  "upper_char ch =
     (case map_of (zip ''abcdefghijklmnopqrstuvwxyz'' ''ABCDEFGHIJKLMNOPQRSTUVWXYZ'') ch of
        Some l \<Rightarrow> l | None \<Rightarrow> ch)"

fun starts_with :: "string \<Rightarrow> string \<Rightarrow> bool" where
  "starts_with [] s = True"
| "starts_with (p # ps) [] = False"
| "starts_with (p # ps) (ch # s) = (p = ch \<and> starts_with ps s)"

fun substring_in :: "string \<Rightarrow> string \<Rightarrow> bool" where
  "substring_in sub [] = (sub = [])"
| "substring_in sub (ch # s) = (starts_with sub (ch # s) \<or> substring_in sub s)"

section \<open>Reactive avoidance field (src/navigation/reactive_avoidance.py)\<close>

text \<open>
  \<open>zmf\<close> works on an array by three masked assignments, in this order; a later mask
  overwrites an earlier one. \<open>zmf_elem\<close> is what they leave in one element.
\<close>

definition zmf_elem :: "real \<Rightarrow> real \<Rightarrow> real \<Rightarrow> real" where
  "zmf_elem x a b =
     (let y0 = 0;
          y1 = (if x \<le> a then 1 else y0);
          y2 = (if a < x \<and> x < (a + b) / 2 then 1 - 2 * ((x - a) / (b - a))\<^sup>2 else y1);
          y3 = (if (a + b) / 2 \<le> x \<and> x < b then 2 * ((x - b) / (b - a))\<^sup>2 else y2)
      in y3)"

definition zmf :: "real list \<Rightarrow> real \<Rightarrow> real \<Rightarrow> real list" where
  "zmf x a b = map (\<lambda>d. zmf_elem d a b) x"

definition reactive_avoidance ::
  "real list \<Rightarrow> real list \<Rightarrow> real \<Rightarrow> real \<Rightarrow> real \<Rightarrow> real
     \<Rightarrow> py_error + (real \<times> real list \<times> real list \<times> real list \<times> real list)" where
  "reactive_avoidance x_ob y_ob x y psi t =
     (let a = 600 / 1852;
          b = 1200 / 1852;
          sig = 80 * pi / 180;
          dx = map (\<lambda>xo. xo - x) x_ob;
          dy = map (\<lambda>yo. yo - y) y_ob
      in ebind (np_broadcast2 (\<lambda>u v. sqrt (u\<^sup>2 + v\<^sup>2)) dx dy) (\<lambda>distance_ob.
         ebind (np_broadcast2 arctan2 dy dx) (\<lambda>los_ob.
           let bearing_ob = map (\<lambda>l. psi - l) los_ob;
               w_r = zmf distance_ob a b;
               w_b = map (\<lambda>\<beta>. - exp (- (\<beta>\<^sup>2) / (2 * sig\<^sup>2))) bearing_ob;
               psi_oa = sum_list (map2 (*) w_r w_b) * 2
           in Inr (psi_oa, w_b, w_r, distance_ob, bearing_ob))))"

section \<open>Scenario table (src/utils/imazu_cases.py)\<close>

definition nautical_to_meters :: "real \<Rightarrow> real" where
  "nautical_to_meters nm_value = nm_value * 1852"

text \<open>
  The dictionary \<open>obstacle_cases\<close>: every key with its obstacles, each obstacle a
  position in metres and a heading in degrees.
\<close>

definition obstacle_cases :: "(string \<times> ((real \<times> real) \<times> real) list) list" where
  "obstacle_cases =
  [(''Case 1'', [((nautical_to_meters 6, nautical_to_meters 0), 180)]),
   (''Case 2'', [((nautical_to_meters 5, nautical_to_meters (- 2.14)), 90)]),
   (''Case 3'', [((nautical_to_meters 3, nautical_to_meters 0), 0)]),
   (''Case 4'', [((nautical_to_meters 3.44, nautical_to_meters (1.55 + 0.08)), 295)]),
   (''Case 5'', [((nautical_to_meters 5, nautical_to_meters (- 2.0 - 0.14)), 90),
                 ((nautical_to_meters (7 - 0.05), nautical_to_meters 0), 180)]),
   (''Case 6'', [((nautical_to_meters 3.4, nautical_to_meters (- 1.5 + 0.03)), 45),
                 ((nautical_to_meters 3, nautical_to_meters (- 0.35 - 0.04)), 10)]),
   (''Case 7'', [((nautical_to_meters 3, nautical_to_meters 0), 0),
                 ((nautical_to_meters 3.4, nautical_to_meters (- 1.5 + 0.01)), 45)]),
   (''Case 8'', [((nautical_to_meters 5, nautical_to_meters (- 2.13)), 90),
                 ((nautical_to_meters 7, nautical_to_meters 0), 180)]),
   (''Case 9'', [((nautical_to_meters 3.4, nautical_to_meters (- 1.5 + 0.03)), 45),
                 ((nautical_to_meters 5, nautical_to_meters (- 2.1 - 0.05)), 90)]),
   (''Case 10'', [((nautical_to_meters 3, nautical_to_meters 0.35), 350),
                  ((nautical_to_meters 4.4, nautical_to_meters (- 2.1 + 0.20)), 90)]),
   (''Case 11'', [((nautical_to_meters 5, nautical_to_meters 2.1), - 90),
                  ((nautical_to_meters 3.4, nautical_to_meters (- 1.5)), 45)]),
   (''Case 12'', [((nautical_to_meters 7, nautical_to_meters 0), 180),
                  ((nautical_to_meters 3, nautical_to_meters (0.3 + 0.05)), - 10),
                  ((nautical_to_meters 3.44, nautical_to_meters (- 1.55 + 0.05)), 45)]),
   (''Case 13'', [((nautical_to_meters 6, nautical_to_meters 0), 180),
                  ((nautical_to_meters 3, nautical_to_meters (0.3 + 0.05)), 350),
                  ((nautical_to_meters 3.4, nautical_to_meters (1.5 + 0.05)), 295)]),
   (''Case 14'', [((nautical_to_meters 3.4, nautical_to_meters (- 1.5)), 45),
                  ((nautical_to_meters 3, nautical_to_meters (- 0.4)), 10),
                  ((nautical_to_meters 5, nautical_to_meters (- 2.1 - 0.05)), 90)]),
   (''Case 15'', [((nautical_to_meters 3, nautical_to_meters 0), 0),
                  ((nautical_to_meters 3.4, nautical_to_meters (- 1.5)), 45),
                  ((nautical_to_meters 5, nautical_to_meters (- 2.1 - 0.05)), 90)]),
   (''Case 16'', [((nautical_to_meters 3.4, nautical_to_meters (1.5 - 0.03)), - 45),
                  ((nautical_to_meters 5, nautical_to_meters (2.1 + 0.04)), - 90),
                  ((nautical_to_meters 5, nautical_to_meters (- 2.1 + - 0.05)), 90)]),
   (''Case 17'', [((nautical_to_meters 3, nautical_to_meters 0), 0),
                  ((nautical_to_meters 3, nautical_to_meters (0.3 + 0.05)), - 10),
                  ((nautical_to_meters 3.4, nautical_to_meters (- 1.5)), 45)]),
   (''Case 18'', [((nautical_to_meters 3.3, nautical_to_meters (- 0.3 - 0.1)), 10),
                  ((nautical_to_meters 3.4, nautical_to_meters (- 1.5 + 0.05)), 45),
                  ((nautical_to_meters 6.5, nautical_to_meters (- 1.5)), 135)]),
   (''Case 19'', [((nautical_to_meters 3, nautical_to_meters (- 0.3 - 0.07)), 10),
                  ((nautical_to_meters 3, nautical_to_meters (0.3 + 0.05)), - 10),
                  ((nautical_to_meters 6.5, nautical_to_meters (- 1.5 - 0.03)), 135)]),
   (''Case 20'', [((nautical_to_meters 3, nautical_to_meters 0), 0),
                  ((nautical_to_meters 3, nautical_to_meters (- 0.3 - 0.05)), 10),
                  ((nautical_to_meters 4.4, nautical_to_meters (- 2.1 + 0.25)), 90)]),
   (''Case 21'', [((nautical_to_meters (3 - 0.3), nautical_to_meters (- 0.3 - 0.05)), 10),
                  ((nautical_to_meters (3 - 0.3), nautical_to_meters (0.3 + 0.02)), - 10),
                  ((nautical_to_meters 4.4, nautical_to_meters (- 1.9)), 90)]),
   (''Case 22'', [((nautical_to_meters 3, nautical_to_meters 0), 0),
                  ((nautical_to_meters 3.94, nautical_to_meters (- 1.6 - 0.13)), 45),
                  ((nautical_to_meters 5, nautical_to_meters (- 2.01 - 0.15)), 90)]),
   (''Case 23'', [((nautical_to_meters 4.243, nautical_to_meters 2.243), - 75)])]"

text \<open>\<open>obstacle_cases.get(f"Case {case_number}", [])\<close>.\<close>

definition get_obstacles :: "int \<Rightarrow> ((real \<times> real) \<times> real) list" where
  "get_obstacles case_number =
     (let case_key = ''Case '' @ str_int case_number
      in case map_of obstacle_cases case_key of None \<Rightarrow> [] | Some obstacles \<Rightarrow> obstacles)"

text \<open>Returns \<open>(Xob, Yob, Vob, psiob)\<close>.\<close>

definition get_obstacle_data :: "int \<Rightarrow> real list \<times> real list \<times> real list \<times> real list" where
  "get_obstacle_data case_number =
     (let obstacles = get_obstacles case_number;
          Vob = replicate (length obstacles) 18.52;
          Xob = map (\<lambda>obstacle. fst (fst obstacle)) obstacles;
          Yob = map (\<lambda>obstacle. snd (fst obstacle)) obstacles;
          psiob = map (\<lambda>obstacle. radians (snd obstacle)) obstacles
      in (Xob, Yob, Vob, psiob))"

text \<open>Reading a decimal string back, to tell the keys of the table apart.\<close>

definition digit_of :: "char \<Rightarrow> nat" where
  "digit_of ch = (case map_of (zip ''0123456789'' [0, 1, 2, 3, 4, 5, 6, 7, 8, 9]) ch of Some d \<Rightarrow> d | None \<Rightarrow> 0)"

definition nat_of_str :: "string \<Rightarrow> nat" where
  "nat_of_str s = foldl (\<lambda>acc ch. 10 * acc + digit_of ch) 0 s"

section \<open>Decision hook (src/core/simulation.py, src/decision_making/multi_llm_decision.py)\<close>

definition extract_kdir_from_response :: "string \<Rightarrow> int" where
  "extract_kdir_from_response response =
     (let response_lower = map lower_char response
      in if substring_in ''turn starboard'' response_lower
            \<or> substring_in ''alter course to starboard'' response_lower
            \<or> substring_in ''starboard'' response_lower then 1
         else if substring_in ''turn port'' response_lower
            \<or> substring_in ''alter course to port'' response_lower
            \<or> substring_in ''port'' response_lower then - 1
         else 0)"

text \<open>The dataclass \<open>VesselState\<close> of the decision module.\<close>

record vessel_state =
  risk :: real
  distance :: real
  bearing :: real
  dcpa :: real
  tcpa :: real

text \<open>
  The text sent to the language model holds the number of vessels and the fields of the
  vessel of highest risk (\<open>max(vessels, key=...)\<close>, the first one among equals); the
  model keeps these two and leaves the float formatting out.
\<close>

datatype prompt = Prompt nat vessel_state

fun max_by_risk :: "vessel_state \<Rightarrow> vessel_state list \<Rightarrow> vessel_state" where
  "max_by_risk best [] = best"
| "max_by_risk best (v # vs) = max_by_risk (if risk best < risk v then v else best) vs"

definition format_situation_description :: "vessel_state list \<Rightarrow> prompt" where
  "format_situation_description vessels = Prompt (length vessels) (max_by_risk (hd vessels) (tl vessels))"

text \<open>
  A provider is one of the two classes \<open>OpenAIProvider\<close> and \<open>ClaudeProvider\<close>. Its
  client is the remote service: called at some moment with a prompt it answers with a
  text (\<open>Inr\<close>) or raises an exception with a message (\<open>Inl\<close>). The moment is the step of
  the simulation at which the call is made, so that two calls may answer differently.
\<close>

datatype vendor = OpenAI | Claude

record llm_provider =
  vendor :: vendor
  client :: "(nat \<Rightarrow> prompt \<Rightarrow> string + string) option"

definition vendor_name :: "vendor \<Rightarrow> string" where
  "vendor_name v = (case v of OpenAI \<Rightarrow> ''OpenAI'' | Claude \<Rightarrow> ''Claude'')"

text \<open>\<open>generate_response\<close>: the \<open>try\<close>/\<open>except\<close> turns an exception of the client into a text.\<close>

definition generate_response :: "llm_provider \<Rightarrow> nat \<Rightarrow> prompt \<Rightarrow> string" where
  "generate_response p moment pr =
     (case client p of
        None \<Rightarrow> vendor_name (vendor p) @ '' not available''
      | Some call \<Rightarrow>
          (case call moment pr of
             Inr content \<Rightarrow> content
           | Inl e \<Rightarrow> vendor_name (vendor p) @ '' error: '' @ e))"

text \<open>
  \<open>MultiLLMCOLREGSInterpreter\<close>: the name of the requested provider and the provider that
  \<open>_initialize_provider\<close> found, if any.
\<close>

record interpreter =
  provider_name :: string
  provider :: "llm_provider option"

definition make_decision :: "interpreter \<Rightarrow> nat \<Rightarrow> vessel_state list \<Rightarrow> string" where
  "make_decision self moment vessels =
     (case provider self of
        None \<Rightarrow> ''No LLM provider available''
      | Some p \<Rightarrow>
          if vessels = [] then ''No vessels detected - maintain course and speed''
          else ''['' @ map upper_char (provider_name self) @ ''] ''
               @ generate_response p moment (format_situation_description vessels))"

section \<open>Collaborators that are not among the sources\<close>

text \<open>
  \<open>run_simulation\<close> imports its numerical helpers from modules that are not part of
  the sources at hand (\<open>navigation.planning\<close>, \<open>dynamics\<close>, \<open>core.integration\<close>,
  \<open>navigation.obstacle_sim\<close>, \<open>risk_assessment\<close>). They are parameters of the model,
  with the argument and result shapes of their call sites; the vessel state \<open>X\<close> and its
  derivative are six-element vectors. The flag \<open>LLM_AVAILABLE\<close> (did the import of the
  decision module succeed) and the constructor of the interpreter (which reads the
  environment variables and the installed client libraries) are parameters as well.
\<close>

type_synonym vec6 = "real \<times> real \<times> real \<times> real \<times> real \<times> real"

type_synonym cpa_result = "real \<times> real \<times> real \<times> real \<times> real"

record env =
  waypoint_selection :: "real list \<Rightarrow> real list \<Rightarrow> real \<Rightarrow> real \<Rightarrow> int \<Rightarrow> int"
  planning :: "real list \<Rightarrow> real list \<Rightarrow> real \<Rightarrow> real \<Rightarrow> int \<Rightarrow> real"
  controller :: "real \<Rightarrow> real \<Rightarrow> real \<Rightarrow> real \<Rightarrow> real list \<Rightarrow> real \<Rightarrow> real \<Rightarrow> real \<times> real \<times> real"
  actuator_modeling :: "real \<Rightarrow> real \<Rightarrow> real"
  vessel_dynamics :: "vec6 \<Rightarrow> real \<times> real \<Rightarrow> vec6"
  integration :: "vec6 \<Rightarrow> vec6 \<Rightarrow> real \<Rightarrow> vec6"
  obstacle_sim :: "real list \<Rightarrow> real list \<Rightarrow> real list \<Rightarrow> real list \<Rightarrow> real
                     \<Rightarrow> real list \<times> real list \<times> real list \<times> real list"
  cpa_calculations :: "real \<Rightarrow> real \<Rightarrow> real \<Rightarrow> real \<Rightarrow> real \<Rightarrow> real \<Rightarrow> real \<Rightarrow> real \<Rightarrow> real \<Rightarrow> cpa_result"
  cpa_calculations_0speed :: "real \<Rightarrow> real \<Rightarrow> real \<Rightarrow> real \<Rightarrow> real \<Rightarrow> real \<Rightarrow> real \<Rightarrow> real \<Rightarrow> real \<Rightarrow> cpa_result"
  risk_calculations :: "real \<Rightarrow> real \<Rightarrow> real \<Rightarrow> real \<Rightarrow> real"
  LLM_AVAILABLE :: bool
  COLREGSInterpreter :: "string option \<Rightarrow> interpreter"

text \<open>
  \<open>run_colm\<close>. The five arrays are zipped into vessel states; \<open>moment\<close> is the step at
  which the simulation makes the call.
\<close>

definition run_colm ::
  "env \<Rightarrow> nat \<Rightarrow> real list \<Rightarrow> real list \<Rightarrow> real list \<Rightarrow> real list \<Rightarrow> real list \<Rightarrow> string option \<Rightarrow> string" where
  "run_colm E moment risk_v distance_v bearing_v dcpa_v tcpa_v provider_arg =
     (if \<not> LLM_AVAILABLE E then ''LLM not available - using default behavior''
      else
        let interp = COLREGSInterpreter E provider_arg;
            vessels = map (\<lambda>(r, d, b, dc, tc). \<lparr>risk = r, distance = d, bearing = b, dcpa = dc, tcpa = tc\<rparr>)
                        (zip risk_v (zip distance_v (zip bearing_v (zip dcpa_v tcpa_v))))
        in make_decision interp moment vessels)"

section \<open>The simulation (src/core/simulation.py)\<close>

text \<open>The parsed command line.\<close>

record args =
  case_number :: int
  sim_time :: real
  dt :: real
  no_animation :: bool
  output_dir :: string
  llm :: int
  llm_provider :: "string option"
  compare :: bool

text \<open>Locals of \<open>run_simulation\<close> that the loop reads and never writes.\<close>

record sim_consts =
  N_steps :: nat
  Ts :: real
  Sat_amp_s :: real
  Xwpt :: "real list"
  Ywpt :: "real list"
  Vob :: "real list"
  psiob :: "real list"
  LOA_ob :: "real list"
  BOL_ob :: "real list"
  CPA_ob :: "real list"

text \<open>
  Locals of \<open>run_simulation\<close> that the loop writes. The source's one-letter names carry
  a suffix here: \<open>t\<close> is \<open>t_sim\<close>, \<open>X\<close> is \<open>X_state\<close>, and the arrays \<open>x\<close>, \<open>y\<close>,
  \<open>psi\<close>, \<open>r\<close>, \<open>b\<close>, \<open>u\<close> are \<open>x_arr\<close>, ..., \<open>u_arr\<close>.
\<close>

record sim_state =
  time :: "real list"
  t_sim :: real
  X_state :: vec6
  ui_psi1 :: real
  i_wpt :: int
  Xob :: "real list"
  Yob :: "real list"
  x_arr :: "real list"
  y_arr :: "real list"
  psi_arr :: "real list"
  r_arr :: "real list"
  b_arr :: "real list"
  u_arr :: "real list"
  v_c :: "real list"
  u_p :: "real list"
  tau_c :: "real list"
  tau_ac :: "real list"
  psi_p :: "real list"
  psi_wp :: "real list"
  psi_oa :: "real list"
  V_x :: "real list"
  V_y :: "real list"
  Kdir :: "real list"
  Xobs :: "real list list"
  Yobs :: "real list list"
  Vxobs :: "real list list"
  Vyobs :: "real list list"
  DCPA :: "real list list"
  TCPA :: "real list list"
  Vrel :: "real list list"
  alpha :: "real list list"
  psi_Vrel :: "real list list"
  DCPA2 :: "real list list"
  TCPA2 :: "real list list"
  Vrel2 :: "real list list"
  alpha2 :: "real list list"
  psi_Vrel2 :: "real list list"
  Distance_ob :: "real list list"
  Bearing_ob :: "real list list"
  Risk :: "real list list"

subsection \<open>Set-up (lines 130 to 179)\<close>

text \<open>The arrays as allocated for \<open>N\<close> steps and the obstacles \<open>Xob0\<close>, \<open>Yob0\<close>.\<close>

definition sim_init :: "nat \<Rightarrow> real list \<Rightarrow> real list \<Rightarrow> sim_state" where
  "sim_init N Xob0 Yob0 =
     (let n = length Xob0 in
      \<lparr>time = [], t_sim = 0, X_state = (0, 0, radians 0, 0, 0, 0), ui_psi1 = 0, i_wpt = 1,
       Xob = Xob0, Yob = Yob0,
       x_arr = zeros N, y_arr = zeros N, psi_arr = zeros N,
       r_arr = zeros N, b_arr = zeros N, u_arr = zeros N,
       v_c = zeros N, u_p = zeros N, tau_c = zeros N, tau_ac = zeros N,
       psi_p = zeros N, psi_wp = zeros N, psi_oa = zeros N,
       V_x = zeros N, V_y = zeros N,
       Kdir = replicate N 1,
       Xobs = zeros2 N n, Yobs = zeros2 N n, Vxobs = zeros2 N n, Vyobs = zeros2 N n,
       DCPA = np_fill_rows (zeros2 N n) 1 1000, TCPA = np_fill_rows (zeros2 N n) 1 1000,
       Vrel = zeros2 N n, alpha = zeros2 N n, psi_Vrel = zeros2 N n,
       DCPA2 = zeros2 N n, TCPA2 = zeros2 N n, Vrel2 = zeros2 N n,
       alpha2 = zeros2 N n, psi_Vrel2 = zeros2 N n,
       Distance_ob = zeros2 N n, Bearing_ob = zeros2 N n, Risk = zeros2 N n\<rparr>)"

text \<open>
  The statements before the loop, in their order: the division by \<open>dt\<close> (line 134), the
  scenario (line 158), \<open>LOA_ob[0]\<close> (line 161), \<open>np.ones(N)\<close> (line 165).
\<close>

definition sim_setup :: "args \<Rightarrow> py_error + (sim_consts \<times> sim_state)" where
  "sim_setup a =
     (if dt a = 0 then Inl ZeroDivisionError
      else
        let N = py_round (sim_time a / dt a) in
        case get_obstacle_data (case_number a) of (Xob0, Yob0, Vob0, psiob0) \<Rightarrow>
        let LOA_ob0 = replicate (length Xob0) 80;
            BOL_ob0 = replicate (length Xob0) 30
        in if LOA_ob0 = [] then Inl IndexError
           else
             let CPA_ob0 = replicate (length Xob0) (LOA_ob0 ! 0 * 1)
             in if N < 0 then Inl ValueError
                else Inr (\<lparr>N_steps = nat N, Ts = dt a, Sat_amp_s = 20,
                           Xwpt = [0, nautical_to_meters 40 / 1852], Ywpt = [0, 0],
                           Vob = Vob0, psiob = psiob0,
                           LOA_ob = LOA_ob0, BOL_ob = BOL_ob0, CPA_ob = CPA_ob0\<rparr>,
                          sim_init (nat N) Xob0 Yob0))"

subsection \<open>The body of the loop\<close>

text \<open>
  The loop body stands twice in the source, once under \<open>if Animation\<close> (lines 191 to
  311) and once under \<open>else\<close> (lines 320 to 421). Both run the same blocks in the same
  order; the blocks whose statements agree are modelled once, the risk analysis once per
  branch. The calls that only draw (\<open>animate_step\<close>, \<open>writer.grab_frame\<close>, the plots after
  the loop) are left out, as are the conversions of lengths that only the drawing reads.

  First block: record the state, convert to nautical miles, guidance, avoidance, heading
  command (lines 193 to 230 and 322 to 355).
\<close>

definition guidance_block :: "env \<Rightarrow> sim_consts \<Rightarrow> nat \<Rightarrow> sim_state \<Rightarrow> py_error + sim_state" where
  "guidance_block E c i s =
     (case X_state s of (X0, X1, X2, X3, X4, X5) \<Rightarrow>
      let x = (x_arr s)[i := X0];
          y = (y_arr s)[i := X1];
          psi = (psi_arr s)[i := X2];
          r = (r_arr s)[i := X3];
          b = (b_arr s)[i := X4];
          u = (u_arr s)[i := X5];
          u_p' = (u_p s)[i := 43.3];
          METERS_TO_NMI = 1 / 1852;
          x_nmi = map (\<lambda>xi. xi * METERS_TO_NMI) x;
          y_nmi = map (\<lambda>yi. yi * METERS_TO_NMI) y;
          Xob_nmi = map (\<lambda>xo. xo * METERS_TO_NMI) (Xob s);
          Yob_nmi = map (\<lambda>yo. yo * METERS_TO_NMI) (Yob s);
          i_wpt' = waypoint_selection E (Xwpt c) (Ywpt c) (x_nmi ! i) (y_nmi ! i) (i_wpt s);
          psi_wp' = (psi_wp s)[i := planning E (Xwpt c) (Ywpt c) (x_nmi ! i) (y_nmi ! i) i_wpt']
      in ebind (reactive_avoidance Xob_nmi Yob_nmi (x_nmi ! i) (y_nmi ! i) (psi ! i) (t_sim s))
           (\<lambda>(oa, w_B, w_R, distance_ob, bearing_ob).
              let psi_oa' = (psi_oa s)[i := oa] in
              ebind (np_assign_row (Distance_ob s) i distance_ob) (\<lambda>Distance_ob'.
              ebind (np_assign_row (Bearing_ob s) i bearing_ob) (\<lambda>Bearing_ob'.
                let psi_p' = (psi_p s)[i := psi_wp' ! i + Kdir s ! i * psi_oa' ! i]
                in Inr (s\<lparr>time := time s @ [t_sim s],
                          x_arr := x, y_arr := y, psi_arr := psi, r_arr := r, b_arr := b, u_arr := u,
                          u_p := u_p', i_wpt := i_wpt', psi_wp := psi_wp', psi_oa := psi_oa',
                          Distance_ob := Distance_ob', Bearing_ob := Bearing_ob',
                          psi_p := psi_p'\<rparr>)))))"

text \<open>Controller, actuator and dynamics (lines 232 to 242 and 357 to 370).\<close>

definition control_block :: "env \<Rightarrow> args \<Rightarrow> sim_consts \<Rightarrow> nat \<Rightarrow> sim_state \<Rightarrow> sim_state" where
  "control_block E a c i s =
     (case controller E (psi_p s ! i) (psi_arr s ! i) (r_arr s ! i) (u_p s ! i) (b_arr s) (ui_psi1 s) (Ts c)
      of (tc, vc, ui) \<Rightarrow>
      let tau_c' = (tau_c s)[i := tc];
          v_c' = (v_c s)[i := vc];
          tau_ac' = (tau_ac s)[i := actuator_modeling E (tau_c' ! i) (Sat_amp_s c)];
          X_0 = X_state s;
          inputs = (tau_ac' ! i, v_c' ! i);
          X_dot = vessel_dynamics E X_0 inputs;
          X = integration E X_0 X_dot (dt a)
      in case X_dot of (Xd0, Xd1, Xd2, Xd3, Xd4, Xd5) \<Rightarrow>
         s\<lparr>tau_c := tau_c', v_c := v_c', ui_psi1 := ui, tau_ac := tau_ac', X_state := X,
           V_x := (V_x s)[i := Xd0], V_y := (V_y s)[i := Xd1]\<rparr>)"

text \<open>Obstacle motion and its four rows (lines 244 to 249 and 372 to 377).\<close>

definition obstacle_block :: "env \<Rightarrow> args \<Rightarrow> sim_consts \<Rightarrow> nat \<Rightarrow> sim_state \<Rightarrow> py_error + sim_state" where
  "obstacle_block E a c i s =
     (case obstacle_sim E (Xob s) (Yob s) (Vob c) (psiob c) (dt a) of (Xob', Yob', Vxob, Vyob) \<Rightarrow>
      ebind (np_assign_row (Xobs s) i Xob') (\<lambda>Xobs'.
      ebind (np_assign_row (Yobs s) i Yob') (\<lambda>Yobs'.
      ebind (np_assign_row (Vxobs s) i Vxob) (\<lambda>Vxobs'.
      ebind (np_assign_row (Vyobs s) i Vyob) (\<lambda>Vyobs'.
        Inr (s\<lparr>Xob := Xob', Yob := Yob', Xobs := Xobs', Yobs := Yobs',
               Vxobs := Vxobs', Vyobs := Vyobs'\<rparr>))))))"

text \<open>
  The statements under \<open>if i >= 1\<close> for obstacle \<open>j\<close>: distance, the finite-difference
  CPA variant and the instantaneous-velocity variant.
\<close>

definition cpa_update :: "env \<Rightarrow> sim_consts \<Rightarrow> nat \<Rightarrow> nat \<Rightarrow> sim_state \<Rightarrow> sim_state" where
  "cpa_update E c i j s =
     (let Distance_ob' = mat_set (Distance_ob s) i j
            (sqrt ((Xobs s ! i ! j - x_arr s ! i)\<^sup>2 + (Yobs s ! i ! j - y_arr s ! i)\<^sup>2))
      in case cpa_calculations E (x_arr s ! i) (y_arr s ! i) (x_arr s ! (i - 1)) (y_arr s ! (i - 1))
                (Xobs s ! i ! j) (Yobs s ! i ! j) (Xobs s ! (i - 1) ! j) (Yobs s ! (i - 1) ! j) (Ts c)
         of (dc, tc, vr, al, pv) \<Rightarrow>
         case cpa_calculations_0speed E (x_arr s ! i) (y_arr s ! i) (Xobs s ! i ! j) (Yobs s ! i ! j)
                (V_x s ! i) (V_y s ! i) (Vxobs s ! i ! j) (Vyobs s ! i ! j) (Distance_ob' ! i ! j)
         of (dc2, tc2, vr2, al2, pv2) \<Rightarrow>
         s\<lparr>Distance_ob := Distance_ob',
           DCPA := mat_set (DCPA s) i j dc, TCPA := mat_set (TCPA s) i j tc,
           Vrel := mat_set (Vrel s) i j vr, alpha := mat_set (alpha s) i j al,
           psi_Vrel := mat_set (psi_Vrel s) i j pv,
           DCPA2 := mat_set (DCPA2 s) i j dc2, TCPA2 := mat_set (TCPA2 s) i j tc2,
           Vrel2 := mat_set (Vrel2 s) i j vr2, alpha2 := mat_set (alpha2 s) i j al2,
           psi_Vrel2 := mat_set (psi_Vrel2 s) i j pv2\<rparr>)"

definition risk_update :: "env \<Rightarrow> nat \<Rightarrow> nat \<Rightarrow> sim_state \<Rightarrow> sim_state" where
  "risk_update E i j s =
     s\<lparr>Risk := mat_set (Risk s) i j
          (risk_calculations E (DCPA s ! i ! j) (TCPA s ! i ! j) (Distance_ob s ! i ! j) (Vrel s ! i ! j))\<rparr>"

text \<open>
  Risk analysis of the branch without animation (lines 380 to 397): the call of
  \<open>risk_calculations\<close> stands under \<open>if i >= 1\<close>. All the two-dimensional arrays have
  one shape, so an index \<open>j\<close> beyond the row raises at the first of them that is read.
\<close>

fun risk_analysis_plain :: "env \<Rightarrow> sim_consts \<Rightarrow> nat \<Rightarrow> nat list \<Rightarrow> sim_state \<Rightarrow> py_error + sim_state" where
  "risk_analysis_plain E c i [] s = Inr s"
| "risk_analysis_plain E c i (j # js) s =
     (if 1 \<le> i then
        (if j < length (Xobs s ! i)
         then risk_analysis_plain E c i js (risk_update E i j (cpa_update E c i j s))
         else Inl IndexError)
      else risk_analysis_plain E c i js s)"

text \<open>
  Risk analysis of the animated branch (lines 252 to 269): the call of
  \<open>risk_calculations\<close> stands after the \<open>if\<close>, so it runs at step 0 too.
\<close>

fun risk_analysis_anim :: "env \<Rightarrow> sim_consts \<Rightarrow> nat \<Rightarrow> nat list \<Rightarrow> sim_state \<Rightarrow> py_error + sim_state" where
  "risk_analysis_anim E c i [] s = Inr s"
| "risk_analysis_anim E c i (j # js) s =
     (if j < length ((if 1 \<le> i then Xobs s else DCPA s) ! i)
      then risk_analysis_anim E c i js (risk_update E i j (if 1 \<le> i then cpa_update E c i j s else s))
      else Inl IndexError)"

text \<open>The decision hook (lines 271 to 294 and 399 to 419).\<close>

definition llm_block :: "env \<Rightarrow> args \<Rightarrow> nat \<Rightarrow> sim_state \<Rightarrow> sim_state" where
  "llm_block E a i s =
     (if llm a = 1 then
        (if \<not> LLM_AVAILABLE E then s
         else if i mod 200 = 0 then
           (let decision = run_colm E i (Risk s ! i) (Distance_ob s ! i) (Bearing_ob s ! i)
                             (DCPA s ! i) (TCPA s ! i) (llm_provider a);
                new_kdir = extract_kdir_from_response decision
            in s\<lparr>Kdir := (Kdir s)[i := of_int new_kdir]\<rparr>)
         else s)
      else s)"

definition step_plain :: "env \<Rightarrow> args \<Rightarrow> sim_consts \<Rightarrow> nat \<Rightarrow> sim_state \<Rightarrow> py_error + sim_state" where
  "step_plain E a c i s =
     ebind (guidance_block E c i s) (\<lambda>s1.
     ebind (obstacle_block E a c i (control_block E a c i s1)) (\<lambda>s2.
     ebind (risk_analysis_plain E c i [0..<length (Xob s2)] s2) (\<lambda>s3.
       let s4 = llm_block E a i s3
       in Inr (s4\<lparr>t_sim := t_sim s4 + dt a\<rparr>))))"

definition step_anim :: "env \<Rightarrow> args \<Rightarrow> sim_consts \<Rightarrow> nat \<Rightarrow> sim_state \<Rightarrow> py_error + sim_state" where
  "step_anim E a c i s =
     ebind (guidance_block E c i s) (\<lambda>s1.
     ebind (obstacle_block E a c i (control_block E a c i s1)) (\<lambda>s2.
     ebind (risk_analysis_anim E c i [0..<length (Xob s2)] s2) (\<lambda>s3.
       let s4 = llm_block E a i s3
       in Inr (s4\<lparr>t_sim := t_sim s4 + dt a\<rparr>))))"

subsection \<open>The loop and the run\<close>

primrec sim_loop :: "(nat \<Rightarrow> sim_state \<Rightarrow> py_error + sim_state) \<Rightarrow> nat list \<Rightarrow> sim_state \<Rightarrow> py_error + sim_state" where
  "sim_loop step [] s = Inr s"
| "sim_loop step (i # is) s = ebind (step i s) (sim_loop step is)"

definition sim_step :: "env \<Rightarrow> args \<Rightarrow> sim_consts \<Rightarrow> nat \<Rightarrow> sim_state \<Rightarrow> py_error + sim_state" where
  "sim_step E a c = (if \<not> no_animation a then step_anim E a c else step_plain E a c)"

text \<open>Set-up, then \<open>for i in range(len(x))\<close>; the value is the state after the loop.\<close>

definition sim_run :: "env \<Rightarrow> args \<Rightarrow> py_error + sim_state" where
  "sim_run E a =
     ebind (sim_setup a) (\<lambda>(c, s0). sim_loop (sim_step E a c) [0..<length (x_arr s0)] s0)"

text \<open>The dictionary returned when \<open>return_data\<close> is set (lines 462 to 490).\<close>

record sim_data =
  out_time :: "real list"
  out_x :: "real list"
  out_y :: "real list"
  out_psi :: "real list"
  out_kdir :: "real list"
  out_risk :: "real list list"
  out_dcpa :: "real list list"
  out_tcpa :: "real list list"
  out_distance_ob :: "real list list"
  out_obstacles_x :: "real list"
  out_obstacles_y :: "real list"

definition comparison_kdir :: "real list \<Rightarrow> real list \<Rightarrow> real list" where
  "comparison_kdir Kdir_v psi_oa_v =
     map (\<lambda>i. let control_value = Kdir_v ! i * psi_oa_v ! i
               in if 0 < control_value then 1 else if control_value < 0 then - 1 else 0)
         [0..<length Kdir_v]"

definition sim_data_of :: "sim_state \<Rightarrow> sim_data" where
  "sim_data_of s =
     \<lparr>out_time = time s, out_x = x_arr s, out_y = y_arr s, out_psi = psi_arr s,
      out_kdir = comparison_kdir (Kdir s) (psi_oa s),
      out_risk = Risk s, out_dcpa = DCPA s, out_tcpa = TCPA s, out_distance_ob = Distance_ob s,
      out_obstacles_x = (if 0 < length (Xobs s) then last (Xobs s) else []),
      out_obstacles_y = (if 0 < length (Yobs s) then last (Yobs s) else [])\<rparr>"

datatype sim_result = NoData | Data sim_data | Both sim_data sim_data

text \<open>\<open>run_simulation\<close> past the comparison switch, and \<open>run_comparison_simulation\<close>.\<close>

definition simulate :: "env \<Rightarrow> args \<Rightarrow> py_error + sim_data" where
  "simulate E a = ebind (sim_run E a) (\<lambda>s. Inr (sim_data_of s))"

definition run_comparison_simulation :: "env \<Rightarrow> args \<Rightarrow> py_error + sim_result" where
  "run_comparison_simulation E a =
     ebind (simulate E (a\<lparr>llm := 0\<rparr>)) (\<lambda>baseline_results.
     ebind (simulate E (a\<lparr>llm := 1\<rparr>)) (\<lambda>llm_results.
       Inr (Both baseline_results llm_results)))"

definition run_simulation :: "env \<Rightarrow> args \<Rightarrow> bool \<Rightarrow> py_error + sim_result" where
  "run_simulation E a return_data =
     (if compare a \<and> \<not> return_data then run_comparison_simulation E a
      else ebind (simulate E a) (\<lambda>d. Inr (if return_data then Data d else NoData)))"

section \<open>Shapes and frames\<close>

text \<open>
  \<open>shaped N n s\<close>: the arrays of the state have the shapes they were allocated with for
  \<open>N\<close> steps and \<open>n\<close> obstacles. \<open>obstacle_sim_shaped\<close>: on \<open>n\<close> obstacles the absent
  \<open>obstacle_sim\<close> returns four arrays of length \<open>n\<close>.
\<close>

definition mat_shape :: "nat \<Rightarrow> nat \<Rightarrow> real list list \<Rightarrow> bool" where
  "mat_shape N n M \<longleftrightarrow> length M = N \<and> list_all (\<lambda>row. length row = n) M"

definition shaped :: "nat \<Rightarrow> nat \<Rightarrow> sim_state \<Rightarrow> bool" where
  "shaped N n s \<longleftrightarrow>
     length (Xob s) = n \<and> length (Yob s) = n
     \<and> length (x_arr s) = N \<and> length (y_arr s) = N
     \<and> length (psi_p s) = N \<and> length (psi_wp s) = N \<and> length (psi_oa s) = N
     \<and> length (Kdir s) = N
     \<and> mat_shape N n (Xobs s) \<and> mat_shape N n (Yobs s)
     \<and> mat_shape N n (Vxobs s) \<and> mat_shape N n (Vyobs s)
     \<and> mat_shape N n (DCPA s) \<and> mat_shape N n (TCPA s) \<and> mat_shape N n (Vrel s)
     \<and> mat_shape N n (alpha s) \<and> mat_shape N n (psi_Vrel s)
     \<and> mat_shape N n (DCPA2 s) \<and> mat_shape N n (TCPA2 s) \<and> mat_shape N n (Vrel2 s)
     \<and> mat_shape N n (alpha2 s) \<and> mat_shape N n (psi_Vrel2 s)
     \<and> mat_shape N n (Distance_ob s) \<and> mat_shape N n (Bearing_ob s) \<and> mat_shape N n (Risk s)"

definition obstacle_sim_shaped :: "env \<Rightarrow> args \<Rightarrow> sim_consts \<Rightarrow> nat \<Rightarrow> bool" where
  "obstacle_sim_shaped E a c n \<longleftrightarrow>
     (\<forall>X Y. length X = n \<and> length Y = n \<longrightarrow>
        (case obstacle_sim E X Y (Vob c) (psiob c) (dt a) of
           (X', Y', Vx, Vy) \<Rightarrow> length X' = n \<and> length Y' = n \<and> length Vx = n \<and> length Vy = n))"

text \<open>What the state records for step \<open>k\<close>, as far as the properties below read it.\<close>

definition row_at :: "sim_state \<Rightarrow> nat \<Rightarrow> real list \<times> real list list" where
  "row_at s k =
     ([x_arr s ! k, y_arr s ! k, psi_p s ! k, psi_wp s ! k, psi_oa s ! k, Kdir s ! k],
      [Xobs s ! k, Yobs s ! k, DCPA s ! k, TCPA s ! k, Vrel s ! k, alpha s ! k, psi_Vrel s ! k,
       Risk s ! k, Distance_ob s ! k])"

text \<open>Groups of arrays that a block of the loop body leaves as they are.\<close>

definition heading_part :: "sim_state \<Rightarrow> real list \<times> real list \<times> real list" where
  "heading_part s = (psi_p s, psi_wp s, psi_oa s)"

definition position_part :: "sim_state \<Rightarrow> real list \<times> real list \<times> real list list \<times> real list list" where
  "position_part s = (x_arr s, y_arr s, Xobs s, Yobs s)"

definition cpa_part :: "sim_state \<Rightarrow> real list list \<times> real list list \<times> real list list \<times> real list list \<times> real list list" where
  "cpa_part s = (DCPA s, TCPA s, Vrel s, alpha s, psi_Vrel s)"

text \<open>
  The finite-difference variant as recorded for step \<open>k\<close> and obstacle \<open>j\<close>, and what
  \<open>cpa_calculations\<close> gives on the positions recorded for the steps \<open>k\<close> and \<open>k - 1\<close>.
\<close>

definition cpa_recorded :: "sim_state \<Rightarrow> nat \<Rightarrow> nat \<Rightarrow> cpa_result" where
  "cpa_recorded s k j = (DCPA s ! k ! j, TCPA s ! k ! j, Vrel s ! k ! j, alpha s ! k ! j, psi_Vrel s ! k ! j)"

definition cpa_from_positions :: "env \<Rightarrow> sim_consts \<Rightarrow> sim_state \<Rightarrow> nat \<Rightarrow> nat \<Rightarrow> cpa_result" where
  "cpa_from_positions E c s k j =
     cpa_calculations E (x_arr s ! k) (y_arr s ! k) (x_arr s ! (k - 1)) (y_arr s ! (k - 1))
       (Xobs s ! k ! j) (Yobs s ! k ! j) (Xobs s ! (k - 1) ! j) (Yobs s ! (k - 1) ! j) (Ts c)"

text \<open>A stand-in for the absent collaborators, to run the model on concrete inputs.\<close>

definition still_env :: env where
  "still_env =
     \<lparr>waypoint_selection = (\<lambda>Xw Yw px py k. k),
      planning = (\<lambda>Xw Yw px py k. 0),
      controller = (\<lambda>pp ps rr up bb ui ts. (0, 0, ui)),
      actuator_modeling = (\<lambda>tau sat. tau),
      vessel_dynamics = (\<lambda>X inputs. (0, 0, 0, 0, 0, 0)),
      integration = (\<lambda>X Xd h. X),
      obstacle_sim = (\<lambda>X Y V P h. (X, Y, map (\<lambda>_. 0) X, map (\<lambda>_. 0) Y)),
      cpa_calculations = (\<lambda>x1 y1 x0 y0 xo yo xo0 yo0 ts. (0, 0, 0, 0, 0)),
      cpa_calculations_0speed = (\<lambda>x1 y1 xo yo vx vy vxo vyo d. (0, 0, 0, 0, 0)),
      risk_calculations = (\<lambda>dc tc d vr. 1),
      LLM_AVAILABLE = True,
      COLREGSInterpreter = (\<lambda>p. \<lparr>provider_name = ''openai'',
         provider = Some \<lparr>vendor = OpenAI, client = Some (\<lambda>moment pr. Inr ''Give-way, turn to port'')\<rparr>\<rparr>)\<rparr>"

definition demo_args :: args where
  "demo_args = \<lparr>case_number = 1, sim_time = 2, dt = 1, no_animation = True, output_dir = ''img/'',
                  llm = 1, llm_provider = None, compare = False\<rparr>"

section \<open>Properties of the avoidance field\<close>

lemma sq_half: "0 \<le> (s::real) \<Longrightarrow> s \<le> 1/2 \<Longrightarrow> 2 * s\<^sup>2 \<le> 1/2"
proof -
  assume "0 \<le> s" "s \<le> 1/2"
  then have "s * s \<le> (1/2) * (1/2)" by (intro mult_mono) auto
  then show ?thesis by (simp add: power2_eq_square)
qed

lemma zmf_elem_cases:
  assumes "a < b"
  shows "zmf_elem x a b =
     (if x \<le> a then 1
      else if x < (a + b) / 2 then 1 - 2 * ((x - a) / (b - a))\<^sup>2
      else if x < b then 2 * (1 - (x - a) / (b - a))\<^sup>2
      else 0)"
proof -
  have "((x - b) / (b - a))\<^sup>2 = (1 - (x - a) / (b - a))\<^sup>2"
  proof -
    have "(x - b) / (b - a) = - (1 - (x - a) / (b - a))"
      using assms by (simp add: field_simps)
    then show ?thesis by (simp only: power2_minus)
  qed
  then show ?thesis using assms by (auto simp: zmf_elem_def Let_def)
qed

lemma zmf_elem_lower_piece:
  assumes "a < b" "a < x" "x < (a + b) / 2"
  shows "1 / 2 \<le> zmf_elem x a b \<and> zmf_elem x a b \<le> 1"
proof -
  let ?t = "(x - a) / (b - a)"
  have "0 \<le> ?t" "?t \<le> 1 / 2" using assms by (simp_all add: field_simps)
  then have "2 * ?t\<^sup>2 \<le> 1 / 2" by (rule sq_half)
  moreover have "0 \<le> 2 * ?t\<^sup>2" by simp
  ultimately show ?thesis using assms by (simp add: zmf_elem_cases)
qed

lemma zmf_elem_upper_piece:
  assumes "a < b" "(a + b) / 2 \<le> x" "x < b"
  shows "0 \<le> zmf_elem x a b \<and> zmf_elem x a b \<le> 1 / 2"
proof -
  let ?t = "(x - a) / (b - a)"
  have "0 \<le> 1 - ?t" "1 - ?t \<le> 1 / 2" using assms by (simp_all add: field_simps)
  then have "2 * (1 - ?t)\<^sup>2 \<le> 1 / 2" by (rule sq_half)
  moreover have "0 \<le> 2 * (1 - ?t)\<^sup>2" by simp
  moreover have "a < x" "\<not> x < (a + b) / 2" using assms by auto
  ultimately show ?thesis using assms by (simp add: zmf_elem_cases)
qed

lemma zmf_elem_range:
  assumes "a < b"
  shows "0 \<le> zmf_elem x a b \<and> zmf_elem x a b \<le> 1"
proof -
  consider "x \<le> a" | "a < x" "x < (a + b) / 2" | "(a + b) / 2 \<le> x" "x < b" | "b \<le> x"
    by linarith
  then show ?thesis
  proof cases
    case 1 then show ?thesis using assms by (simp add: zmf_elem_cases)
  next
    case 2 then show ?thesis using zmf_elem_lower_piece[OF assms, of x] by simp
  next
    case 3 then show ?thesis using zmf_elem_upper_piece[OF assms, of x] by simp
  next
    case 4 then show ?thesis using assms by (simp add: zmf_elem_cases)
  qed
qed

lemma zmf_elem_antimono:
  assumes "a < b" "d \<le> d'"
  shows "zmf_elem d' a b \<le> zmf_elem d a b"
proof -
  let ?t = "(d - a) / (b - a)" and ?t' = "(d' - a) / (b - a)"
  have tt: "?t \<le> ?t'" using assms by (simp add: divide_right_mono)
  consider "d \<le> a" | "b \<le> d'" | "a < d" "d' < (a + b) / 2"
    | "a < d" "d < (a + b) / 2" "(a + b) / 2 \<le> d'" "d' < b"
    | "(a + b) / 2 \<le> d" "d' < b"
    using assms by linarith
  then show ?thesis
  proof cases
    case 1
    then have "zmf_elem d a b = 1" using assms by (simp add: zmf_elem_cases)
    then show ?thesis using zmf_elem_range[OF assms(1), of d'] by simp
  next
    case 2
    then have "zmf_elem d' a b = 0" using assms by (simp add: zmf_elem_cases)
    then show ?thesis using zmf_elem_range[OF assms(1), of d] by simp
  next
    case 3
    have "0 \<le> ?t" using 3 assms by simp
    then have "?t\<^sup>2 \<le> ?t'\<^sup>2" using tt by (intro power_mono) auto
    moreover have "a < d'" "d < (a + b) / 2" using 3 assms by auto
    ultimately show ?thesis using 3 assms by (simp add: zmf_elem_cases)
  next
    case 4
    show ?thesis
      using zmf_elem_lower_piece[OF assms(1) 4(1) 4(2)] zmf_elem_upper_piece[OF assms(1) 4(3) 4(4)]
      by linarith
  next
    case 5
    have "0 \<le> 1 - ?t'" using 5 assms by (simp add: field_simps)
    moreover have "1 - ?t' \<le> 1 - ?t" using tt by simp
    ultimately have "(1 - ?t')\<^sup>2 \<le> (1 - ?t)\<^sup>2" by (intro power_mono) auto
    moreover have "a < d" "a < d'" "\<not> d < (a + b) / 2" "\<not> d' < (a + b) / 2" "d < b"
      using 5 assms by auto
    ultimately show ?thesis using assms by (simp add: zmf_elem_cases)
  qed
qed

lemma zmf_elem_deriv_lower:
  assumes "a < b" "a < x" "x < (a + b) / 2"
  shows "((\<lambda>d. zmf_elem d a b) has_real_derivative (- 4 * (x - a) / (b - a)\<^sup>2)) (at x)"
proof -
  have ev: "eventually (\<lambda>d. zmf_elem d a b = 1 - 2 * ((d - a) / (b - a))\<^sup>2) (nhds x)"
  proof -
    have "eventually (\<lambda>d. d \<in> {a <..< (a + b) / 2}) (nhds x)"
      using assms by (intro eventually_nhds_in_open) auto
    then show ?thesis
      by (rule eventually_mono) (use assms in \<open>simp add: zmf_elem_cases\<close>)
  qed
  define c where "c = b - a"
  have c: "c \<noteq> 0" using assms by (simp add: c_def)
  have "((\<lambda>d. 1 - 2 * ((d - a) / c)\<^sup>2) has_real_derivative (- 4 * (x - a) / c\<^sup>2)) (at x)"
    using c by (auto intro!: derivative_eq_intros simp: power2_eq_square field_simps)
  then have "((\<lambda>d. 1 - 2 * ((d - a) / (b - a))\<^sup>2) has_real_derivative (- 4 * (x - a) / (b - a)\<^sup>2)) (at x)"
    by (simp add: c_def)
  then show ?thesis
    using DERIV_cong_ev[OF refl ev refl] by simp
qed

lemma zmf_elem_deriv_upper:
  assumes "a < b" "(a + b) / 2 < x" "x < b"
  shows "((\<lambda>d. zmf_elem d a b) has_real_derivative (4 * (x - b) / (b - a)\<^sup>2)) (at x)"
proof -
  have ev: "eventually (\<lambda>d. zmf_elem d a b = 2 * ((d - b) / (b - a))\<^sup>2) (nhds x)"
  proof -
    have "eventually (\<lambda>d. d \<in> {(a + b) / 2 <..< b}) (nhds x)"
      using assms by (intro eventually_nhds_in_open) auto
    then show ?thesis
      by (rule eventually_mono) (use assms in \<open>auto simp add: zmf_elem_def Let_def\<close>)
  qed
  define c where "c = b - a"
  have c: "c \<noteq> 0" using assms by (simp add: c_def)
  have "((\<lambda>d. 2 * ((d - b) / c)\<^sup>2) has_real_derivative (4 * (x - b) / c\<^sup>2)) (at x)"
    using c by (auto intro!: derivative_eq_intros simp: power2_eq_square field_simps)
  then have "((\<lambda>d. 2 * ((d - b) / (b - a))\<^sup>2) has_real_derivative (4 * (x - b) / (b - a)\<^sup>2)) (at x)"
    by (simp add: c_def)
  then show ?thesis
    using DERIV_cong_ev[OF refl ev refl] by simp
qed


lemma zmf_elem_deriv_mid:
  assumes "a < b"
  shows "((\<lambda>d. zmf_elem d a b) has_real_derivative (- 2 / (b - a))) (at ((a + b) / 2))"
proof -
  define c where "c = b - a"
  define m where "m = (a + b) / 2"
  have c: "0 < c" using assms by (simp add: c_def)
  have am: "a = m - c / 2" and bm: "b = m + c / 2" by (simp_all add: m_def c_def field_simps)
  have fm: "zmf_elem m a b = 1 / 2"
  proof -
    have half: "(m - a) / (b - a) = 1 / 2" using c by (simp add: am bm)
    have "zmf_elem m a b = 2 * (1 - (m - a) / (b - a))\<^sup>2"
      using assms by (simp add: zmf_elem_cases m_def)
    also have "\<dots> = 1 / 2" unfolding half by (simp add: power2_eq_square)
    finally show ?thesis .
  qed
  have q: "(zmf_elem (m + h) a b - zmf_elem m a b) / h = - 2 / c + 2 * \<bar>h\<bar> / c\<^sup>2"
    if h: "h \<noteq> 0" "\<bar>h\<bar> < c / 2" for h
  proof -
    have t: "(m + h - a) / (b - a) = 1 / 2 + h / c" using c by (simp add: am bm field_simps)
    show ?thesis
    proof (cases "h < 0")
      case True
      have "\<not> m + h \<le> a" "m + h < (a + b) / 2" using h True c by (simp_all add: am bm)
      then have e: "zmf_elem (m + h) a b = 1 - 2 * (1 / 2 + h / c)\<^sup>2"
        using assms t by (simp add: zmf_elem_cases)
      show ?thesis unfolding e fm using True c h by (simp add: power2_eq_square field_simps)
    next
      case False
      then have hp: "0 < h" using h by simp
      have "\<not> m + h \<le> a" "\<not> m + h < (a + b) / 2" "m + h < b" using h hp c by (simp_all add: am bm)
      then have e: "zmf_elem (m + h) a b = 2 * (1 - (1 / 2 + h / c))\<^sup>2"
        using assms t by (simp add: zmf_elem_cases)
      show ?thesis unfolding e fm using hp c h by (simp add: power2_eq_square field_simps)
    qed
  qed
  have lim: "(\<lambda>h. - 2 / c + 2 * \<bar>h\<bar> / c\<^sup>2) \<midarrow>0\<rightarrow> - 2 / c + 2 * \<bar>0\<bar> / c\<^sup>2"
    using c by (intro tendsto_intros) auto
  have ev: "eventually (\<lambda>h. - 2 / c + 2 * \<bar>h\<bar> / c\<^sup>2 = (zmf_elem (m + h) a b - zmf_elem m a b) / h) (at 0)"
    unfolding eventually_at by (rule exI[of _ "c / 2"]) (use c q in \<open>auto simp: dist_real_def\<close>)
  have "(\<lambda>h. (zmf_elem (m + h) a b - zmf_elem m a b) / h) \<midarrow>0\<rightarrow> - 2 / c"
    using Lim_transform_eventually[OF lim ev] by simp
  then show ?thesis by (simp add: DERIV_def m_def c_def)
qed

lemma zmf_elem_deriv_open:
  assumes "a < b" "a < x" "x < b"
  shows "((\<lambda>d. zmf_elem d a b) has_real_derivative
           (- 2 / (b - a) + 4 * \<bar>x - (a + b) / 2\<bar> / (b - a)\<^sup>2)) (at x)"
proof -
  define c where "c = b - a"
  define m where "m = (a + b) / 2"
  have c: "0 < c" using assms by (simp add: c_def)
  have am: "a = m - c / 2" and bm: "b = m + c / 2" by (simp_all add: m_def c_def field_simps)
  consider "x < m" | "x = m" | "m < x" by linarith
  then show ?thesis
  proof cases
    case 1
    have "- 4 * (x - a) / (b - a)\<^sup>2 = - 2 / c + 4 * \<bar>x - m\<bar> / c\<^sup>2"
      using 1 c by (simp add: am bm power2_eq_square field_simps)
    then show ?thesis
      using zmf_elem_deriv_lower[OF assms(1,2), of ] 1 by (simp add: m_def c_def)
  next
    case 2
    then have xm: "x = (a + b) / 2" by (simp add: m_def)
    show ?thesis unfolding xm using zmf_elem_deriv_mid[OF assms(1)] by simp
  next
    case 3
    have "4 * (x - b) / (b - a)\<^sup>2 = - 2 / c + 4 * \<bar>x - m\<bar> / c\<^sup>2"
      using 3 c by (simp add: am bm power2_eq_square field_simps)
    then show ?thesis
      using zmf_elem_deriv_upper[OF assms(1) _ assms(3)] 3 by (simp add: m_def c_def)
  qed
qed

text \<open>
  Claim C8. For thresholds \<open>a < b\<close> the range weight \<open>zmf\<close> is 1 up to \<open>a\<close>, \<open>1 - 2t\<^sup>2\<close>
  between \<open>a\<close> and the midpoint, \<open>2(1 - t)\<^sup>2\<close> between the midpoint and \<open>b\<close> (with
  \<open>t = (d - a) / (b - a)\<close>), 0 from \<open>b\<close> on; it is continuous at the midpoint, has a
  derivative on the whole of \<open>(a, b)\<close> that is continuous at the midpoint, is monotone
  non-increasing and takes its values in \<open>[0, 1]\<close>. On an array it acts elementwise.
\<close>

theorem zmf_spec:
  assumes "a < b"
  shows "(\<forall>d. d \<le> a \<longrightarrow> zmf_elem d a b = 1)
       \<and> (\<forall>d. a < d \<and> d < (a + b) / 2 \<longrightarrow> zmf_elem d a b = 1 - 2 * ((d - a) / (b - a))\<^sup>2)
       \<and> (\<forall>d. (a + b) / 2 \<le> d \<and> d < b \<longrightarrow> zmf_elem d a b = 2 * (1 - (d - a) / (b - a))\<^sup>2)
       \<and> (\<forall>d. b \<le> d \<longrightarrow> zmf_elem d a b = 0)
       \<and> isCont (\<lambda>d. zmf_elem d a b) ((a + b) / 2)
       \<and> (\<exists>D. (\<forall>x. a < x \<and> x < b \<longrightarrow> ((\<lambda>d. zmf_elem d a b) has_real_derivative D x) (at x))
              \<and> isCont D ((a + b) / 2))
       \<and> (\<forall>d d'. d \<le> d' \<longrightarrow> zmf_elem d' a b \<le> zmf_elem d a b)
       \<and> (\<forall>d. 0 \<le> zmf_elem d a b \<and> zmf_elem d a b \<le> 1)
       \<and> (\<forall>xs. zmf xs a b = map (\<lambda>d. zmf_elem d a b) xs)"
proof -
  have p1: "\<forall>d. d \<le> a \<longrightarrow> zmf_elem d a b = 1"
    using assms by (simp add: zmf_elem_cases)
  have p2: "\<forall>d. a < d \<and> d < (a + b) / 2 \<longrightarrow> zmf_elem d a b = 1 - 2 * ((d - a) / (b - a))\<^sup>2"
    using assms by (simp add: zmf_elem_cases)
  have p3: "\<forall>d. (a + b) / 2 \<le> d \<and> d < b \<longrightarrow> zmf_elem d a b = 2 * (1 - (d - a) / (b - a))\<^sup>2"
    using assms by (auto simp add: zmf_elem_cases)
  have p4: "\<forall>d. b \<le> d \<longrightarrow> zmf_elem d a b = 0"
    using assms by (auto simp add: zmf_elem_cases)
  have p5: "isCont (\<lambda>d. zmf_elem d a b) ((a + b) / 2)"
    using zmf_elem_deriv_mid[OF assms] by (rule DERIV_isCont)
  have p6: "\<exists>D. (\<forall>x. a < x \<and> x < b \<longrightarrow> ((\<lambda>d. zmf_elem d a b) has_real_derivative D x) (at x))
              \<and> isCont D ((a + b) / 2)"
  proof (intro exI conjI allI impI)
    fix x assume "a < x \<and> x < b"
    then show "((\<lambda>d. zmf_elem d a b) has_real_derivative
           (\<lambda>x. - 2 / (b - a) + 4 * \<bar>x - (a + b) / 2\<bar> / (b - a)\<^sup>2) x) (at x)"
      using zmf_elem_deriv_open[OF assms, of x] by simp
  next
    show "isCont (\<lambda>x. - 2 / (b - a) + 4 * \<bar>x - (a + b) / 2\<bar> / (b - a)\<^sup>2) ((a + b) / 2)"
      using assms by (intro continuous_intros) auto
  qed
  have p7: "\<forall>d d'. d \<le> d' \<longrightarrow> zmf_elem d' a b \<le> zmf_elem d a b"
    using zmf_elem_antimono[OF assms] by blast
  have p8: "\<forall>d. 0 \<le> zmf_elem d a b \<and> zmf_elem d a b \<le> 1"
    using zmf_elem_range[OF assms] by blast
  show ?thesis using p1 p2 p3 p4 p5 p6 p7 p8 by (simp add: zmf_def)
qed


theorem zmf_spec_witness:
  "(600 / 1852 :: real) < 1200 / 1852
   \<and> zmf_elem (1 / 10) (600 / 1852) (1200 / 1852) = 1
   \<and> zmf_elem 1 (600 / 1852) (1200 / 1852) = 0
   \<and> isCont (\<lambda>d. zmf_elem d (600 / 1852) (1200 / 1852)) ((600 / 1852 + 1200 / 1852) / 2)
   \<and> zmf_elem (1 / 2) (600 / 1852) (1200 / 1852) \<le> zmf_elem (2 / 5) (600 / 1852) (1200 / 1852)
   \<and> 0 \<le> zmf_elem (1 / 2) (600 / 1852) (1200 / 1852)
   \<and> zmf_elem (1 / 2) (600 / 1852) (1200 / 1852) \<le> 1"
proof -
  have h: "(600 / 1852 :: real) < 1200 / 1852" by simp
  note z = zmf_spec[OF h]
  have z1: "zmf_elem (1 / 10) (600 / 1852) (1200 / 1852) = 1"
    using z[THEN conjunct1, rule_format, of "1 / 10"] by simp
  have z4: "zmf_elem 1 (600 / 1852) (1200 / 1852) = 0"
    using z[THEN conjunct2, THEN conjunct2, THEN conjunct2, THEN conjunct1, rule_format, of 1] by simp
  have z5: "isCont (\<lambda>d. zmf_elem d (600 / 1852) (1200 / 1852)) ((600 / 1852 + 1200 / 1852) / 2)"
    using z by (elim conjE)
  have z7: "zmf_elem (1 / 2) (600 / 1852) (1200 / 1852) \<le> zmf_elem (2 / 5) (600 / 1852) (1200 / 1852)"
    using z[THEN conjunct2, THEN conjunct2, THEN conjunct2, THEN conjunct2, THEN conjunct2,
            THEN conjunct2, THEN conjunct1, rule_format, of "2 / 5" "1 / 2"] by simp
  have z8: "0 \<le> zmf_elem (1 / 2) (600 / 1852) (1200 / 1852)
            \<and> zmf_elem (1 / 2) (600 / 1852) (1200 / 1852) \<le> 1"
    using z[THEN conjunct2, THEN conjunct2, THEN conjunct2, THEN conjunct2, THEN conjunct2,
            THEN conjunct2, THEN conjunct2, THEN conjunct1, rule_format, of "1 / 2"] .
  show ?thesis using h z1 z4 z5 z7 z8 by (intro conjI) (erule conjunct1 conjunct2 | assumption)+
qed

lemma ebind_Inr [simp]: "ebind (Inr v) f = f v"
  by (simp add: ebind_def)

lemma ebind_Inl [simp]: "ebind (Inl e) f = Inl e"
  by (simp add: ebind_def)

lemma ebind_eq_Inr:
  "ebind m f = Inr y \<longleftrightarrow> (\<exists>v. m = Inr v \<and> f v = Inr y)"
  by (cases m) simp_all

lemma np_broadcast2_same:
  "length xs = length ys \<Longrightarrow> np_broadcast2 f xs ys = Inr (map2 f xs ys)"
  by (simp add: np_broadcast2_def)

lemma sum_list_map2_nth:
  fixes f :: "real \<Rightarrow> real \<Rightarrow> real"
  assumes "length xs = length ys"
  shows "sum_list (map2 f xs ys) = (\<Sum>i<length xs. f (xs ! i) (ys ! i))"
proof -
  have "sum_list (map2 f xs ys) = (\<Sum>i = 0..<length (map2 f xs ys). map2 f xs ys ! i)"
    by (rule sum_list_sum_nth)
  also have "\<dots> = (\<Sum>i = 0..<length xs. f (xs ! i) (ys ! i))"
    using assms by (intro sum.cong) auto
  finally show ?thesis by (simp add: atLeast0LessThan)
qed

lemma weighted_sum_bounds:
  fixes ws vs :: "real list"
  assumes "length ws = length vs"
    and "\<forall>i<length ws. 0 \<le> ws ! i \<and> ws ! i \<le> 1"
    and "\<forall>i<length ws. - 1 \<le> vs ! i \<and> vs ! i \<le> 0"
  shows "sum_list (map2 (*) ws vs) \<le> 0 \<and> - real (length ws) \<le> sum_list (map2 (*) ws vs)"
  using assms
proof (induction ws vs rule: list_induct2)
  case Nil
  then show ?case by simp
next
  case (Cons w ws v vs)
  have w: "0 \<le> w" "w \<le> 1" and v: "- 1 \<le> v" "v \<le> 0"
    using Cons.prems[rule_format, of 0] by simp_all
  have tl: "\<forall>i<length ws. 0 \<le> ws ! i \<and> ws ! i \<le> 1" "\<forall>i<length ws. - 1 \<le> vs ! i \<and> vs ! i \<le> 0"
    using Cons.prems by fastforce+
  have ih: "sum_list (map2 (*) ws vs) \<le> 0" "- real (length ws) \<le> sum_list (map2 (*) ws vs)"
    using Cons.IH[OF tl] by simp_all
  have up: "w * v \<le> 0" using w v by (simp add: mult_nonneg_nonpos)
  have "w * (- v) \<le> 1 * 1" using w v by (intro mult_mono) auto
  then have lo: "- 1 \<le> w * v" by simp
  show ?case using ih up lo by simp
qed

lemma reactive_avoidance_same_length:
  assumes "length x_ob = length y_ob"
  shows "reactive_avoidance x_ob y_ob x y psi t =
    (let distance_ob = map2 (\<lambda>u v. sqrt (u\<^sup>2 + v\<^sup>2)) (map (\<lambda>xo. xo - x) x_ob) (map (\<lambda>yo. yo - y) y_ob);
         bearing_ob = map (\<lambda>l. psi - l) (map2 arctan2 (map (\<lambda>yo. yo - y) y_ob) (map (\<lambda>xo. xo - x) x_ob));
         w_r = zmf distance_ob (600 / 1852) (1200 / 1852);
         w_b = map (\<lambda>\<beta>. - exp (- (\<beta>\<^sup>2) / (2 * (80 * pi / 180)\<^sup>2))) bearing_ob
     in Inr (sum_list (map2 (*) w_r w_b) * 2, w_b, w_r, distance_ob, bearing_ob))"
proof -
  have l1: "length (map (\<lambda>xo. xo - x) x_ob) = length (map (\<lambda>yo. yo - y) y_ob)"
    using assms by simp
  have l2: "length (map (\<lambda>yo. yo - y) y_ob) = length (map (\<lambda>xo. xo - x) x_ob)"
    using assms by simp
  show ?thesis
    unfolding reactive_avoidance_def Let_def np_broadcast2_same[OF l1] np_broadcast2_same[OF l2] ebind_Inr
    by (rule refl)
qed

lemma bearing_weight_range:
  "- 1 \<le> - exp (- (\<beta>\<^sup>2) / (2 * (80 * pi / 180)\<^sup>2)) \<and> - exp (- (\<beta>\<^sup>2) / (2 * (80 * pi / 180)\<^sup>2)) \<le> (0::real)"
proof -
  have "- (\<beta>\<^sup>2) / (2 * (80 * pi / 180)\<^sup>2) \<le> 0"
    by (simp add: divide_nonpos_nonneg)
  then have "exp (- (\<beta>\<^sup>2) / (2 * (80 * pi / 180)\<^sup>2)) \<le> 1"
    by (simp only: exp_le_one_iff)
  then show ?thesis by simp
qed

text \<open>
  Claim C3. For obstacle arrays of one length the bias returned by \<open>reactive_avoidance\<close>
  is twice the sum over the obstacles of range weight times bearing weight, the bearing
  being \<open>psi - arctan2 (y_ob - y) (x_ob - x)\<close>; a single obstacle dead ahead (bearing 0)
  no farther than \<open>a = 600/1852\<close> gives the bias \<open>-2\<close>.
\<close>

theorem reactive_avoidance_bias:
  assumes "length x_ob = length y_ob"
  shows "map_sum id fst (reactive_avoidance x_ob y_ob x y psi t) =
           Inr (2 * (\<Sum>i<length x_ob.
                  zmf_elem (sqrt ((x_ob ! i - x)\<^sup>2 + (y_ob ! i - y)\<^sup>2)) (600 / 1852) (1200 / 1852)
                  * (- exp (- ((psi - arctan2 (y_ob ! i - y) (x_ob ! i - x))\<^sup>2) / (2 * (80 * pi / 180)\<^sup>2)))))
       \<and> (\<forall>xo yo. x_ob = [xo] \<and> y_ob = [yo]
             \<and> sqrt ((xo - x)\<^sup>2 + (yo - y)\<^sup>2) \<le> 600 / 1852
             \<and> psi - arctan2 (yo - y) (xo - x) = 0
            \<longrightarrow> map_sum id fst (reactive_avoidance x_ob y_ob x y psi t) = Inr (- 2))"
proof
  let ?d = "map2 (\<lambda>u v. sqrt (u\<^sup>2 + v\<^sup>2)) (map (\<lambda>xo. xo - x) x_ob) (map (\<lambda>yo. yo - y) y_ob)"
  let ?b = "map (\<lambda>l. psi - l) (map2 arctan2 (map (\<lambda>yo. yo - y) y_ob) (map (\<lambda>xo. xo - x) x_ob))"
  let ?wr = "zmf ?d (600 / 1852) (1200 / 1852)"
  let ?wb = "map (\<lambda>\<beta>. - exp (- (\<beta>\<^sup>2) / (2 * (80 * pi / 180)\<^sup>2))) ?b"
  have len: "length ?wr = length ?wb" "length ?wr = length x_ob"
    using assms by (simp_all add: zmf_def)
  have "sum_list (map2 (*) ?wr ?wb) = (\<Sum>i<length ?wr. ?wr ! i * ?wb ! i)"
    using len(1) by (rule sum_list_map2_nth)
  also have "\<dots> = (\<Sum>i<length x_ob.
                  zmf_elem (sqrt ((x_ob ! i - x)\<^sup>2 + (y_ob ! i - y)\<^sup>2)) (600 / 1852) (1200 / 1852)
                  * (- exp (- ((psi - arctan2 (y_ob ! i - y) (x_ob ! i - x))\<^sup>2) / (2 * (80 * pi / 180)\<^sup>2))))"
    unfolding len(2) using assms by (intro sum.cong) (auto simp: zmf_def)
  finally show "map_sum id fst (reactive_avoidance x_ob y_ob x y psi t) =
           Inr (2 * (\<Sum>i<length x_ob.
                  zmf_elem (sqrt ((x_ob ! i - x)\<^sup>2 + (y_ob ! i - y)\<^sup>2)) (600 / 1852) (1200 / 1852)
                  * (- exp (- ((psi - arctan2 (y_ob ! i - y) (x_ob ! i - x))\<^sup>2) / (2 * (80 * pi / 180)\<^sup>2)))))"
    by (simp add: reactive_avoidance_same_length[OF assms] Let_def)
next
  show "\<forall>xo yo. x_ob = [xo] \<and> y_ob = [yo]
             \<and> sqrt ((xo - x)\<^sup>2 + (yo - y)\<^sup>2) \<le> 600 / 1852
             \<and> psi - arctan2 (yo - y) (xo - x) = 0
            \<longrightarrow> map_sum id fst (reactive_avoidance x_ob y_ob x y psi t) = Inr (- 2)"
  proof (intro allI impI)
    fix xo yo
    assume h: "x_ob = [xo] \<and> y_ob = [yo]
             \<and> sqrt ((xo - x)\<^sup>2 + (yo - y)\<^sup>2) \<le> 600 / 1852
             \<and> psi - arctan2 (yo - y) (xo - x) = 0"
    then have z: "zmf_elem (sqrt ((xo - x)\<^sup>2 + (yo - y)\<^sup>2)) (600 / 1852) (1200 / 1852) = 1"
      by (simp add: zmf_elem_cases)
    show "map_sum id fst (reactive_avoidance x_ob y_ob x y psi t) = Inr (- 2)"
      using h z by (simp add: reactive_avoidance_same_length Let_def zmf_def)
  qed
qed

theorem reactive_avoidance_bias_witness:
  "length [1 / 10 :: real] = length [0 :: real]
   \<and> sqrt ((1 / 10 - 0)\<^sup>2 + (0 - 0)\<^sup>2) \<le> (600 / 1852 :: real)
   \<and> 0 - arctan2 (0 - 0) (1 / 10 - 0) = 0
   \<and> map_sum id fst (reactive_avoidance [1 / 10] [0] 0 0 0 0) = Inr (- 2)"
proof -
  have l: "length [1 / 10 :: real] = length [0 :: real]" by simp
  have "sqrt ((1 / 10 - 0)\<^sup>2 + (0 - 0)\<^sup>2) = \<bar>1 / 10 :: real\<bar>"
    by (simp only: diff_zero zero_power2 add_0_right real_sqrt_abs)
  then have d: "sqrt ((1 / 10 - 0)\<^sup>2 + (0 - 0)\<^sup>2) \<le> (600 / 1852 :: real)" by simp
  have b: "0 - arctan2 (0 - 0) (1 / 10 - 0) = 0" by (simp add: arctan2_def)
  from reactive_avoidance_bias[OF l, of 0 0 0 0] d b
  have "map_sum id fst (reactive_avoidance [1 / 10] [0] 0 0 0 0) = Inr (- 2)" by blast
  with l d b show ?thesis by blast
qed

text \<open>
  Claim C10. For obstacle arrays of one length \<open>N\<close> the call returns, every range weight
  lies in \<open>[0, 1]\<close>, every bearing weight in \<open>[-1, 0]\<close>, and the bias is never positive
  and not below \<open>-2N\<close>; coincident positions are no exception.
\<close>

theorem reactive_avoidance_bounds:
  assumes "length x_ob = length y_ob"
  shows "\<exists>psi_oa w_b w_r distance_ob bearing_ob.
     reactive_avoidance x_ob y_ob x y psi t = Inr (psi_oa, w_b, w_r, distance_ob, bearing_ob)
     \<and> length w_r = length x_ob \<and> length w_b = length x_ob
     \<and> (\<forall>i<length x_ob. 0 \<le> w_r ! i \<and> w_r ! i \<le> 1)
     \<and> (\<forall>i<length x_ob. - 1 \<le> w_b ! i \<and> w_b ! i \<le> 0)
     \<and> psi_oa \<le> 0 \<and> - 2 * real (length x_ob) \<le> psi_oa"
proof -
  let ?d = "map2 (\<lambda>u v. sqrt (u\<^sup>2 + v\<^sup>2)) (map (\<lambda>xo. xo - x) x_ob) (map (\<lambda>yo. yo - y) y_ob)"
  let ?b = "map (\<lambda>l. psi - l) (map2 arctan2 (map (\<lambda>yo. yo - y) y_ob) (map (\<lambda>xo. xo - x) x_ob))"
  let ?wr = "zmf ?d (600 / 1852) (1200 / 1852)"
  let ?wb = "map (\<lambda>\<beta>. - exp (- (\<beta>\<^sup>2) / (2 * (80 * pi / 180)\<^sup>2))) ?b"
  have len: "length ?wr = length x_ob" "length ?wb = length x_ob"
    using assms by (simp_all add: zmf_def)
  have ab: "(600 / 1852 :: real) < 1200 / 1852" by simp
  have r: "\<forall>i<length ?wr. 0 \<le> ?wr ! i \<and> ?wr ! i \<le> 1"
    using zmf_elem_range[OF ab] assms by (simp add: zmf_def)
  have b: "\<forall>i<length ?wr. - 1 \<le> ?wb ! i \<and> ?wb ! i \<le> 0"
    using bearing_weight_range assms by (simp add: zmf_def)
  have s: "sum_list (map2 (*) ?wr ?wb) \<le> 0 \<and> - real (length ?wr) \<le> sum_list (map2 (*) ?wr ?wb)"
    using len r b by (intro weighted_sum_bounds) simp_all
  have eq: "reactive_avoidance x_ob y_ob x y psi t = Inr (sum_list (map2 (*) ?wr ?wb) * 2, ?wb, ?wr, ?d, ?b)"
    by (simp add: reactive_avoidance_same_length[OF assms] Let_def)
  show ?thesis
    apply (rule exI[of _ "sum_list (map2 (*) ?wr ?wb) * 2"])
    apply (rule exI[of _ ?wb])
    apply (rule exI[of _ ?wr])
    apply (rule exI[of _ ?d])
    apply (rule exI[of _ ?b])
    using eq len r b s by simp
qed

theorem reactive_avoidance_bounds_witness:
  "length [0 :: real] = length [0 :: real]
   \<and> (\<exists>psi_oa w_b w_r distance_ob bearing_ob.
     reactive_avoidance [0] [0] 0 0 0 0 = Inr (psi_oa, w_b, w_r, distance_ob, bearing_ob)
     \<and> length w_r = length [0 :: real] \<and> length w_b = length [0 :: real]
     \<and> (\<forall>i<length [0 :: real]. 0 \<le> w_r ! i \<and> w_r ! i \<le> 1)
     \<and> (\<forall>i<length [0 :: real]. - 1 \<le> w_b ! i \<and> w_b ! i \<le> 0)
     \<and> psi_oa \<le> 0 \<and> - 2 * real (length [0 :: real]) \<le> psi_oa)"
proof -
  have l: "length [0 :: real] = length [0 :: real]" by simp
  show ?thesis using l reactive_avoidance_bounds[OF l, of 0 0 0 0] by (rule conjI)
qed

section \<open>Unknown scenarios\<close>

lemma nat_of_str_snoc: "nat_of_str (s @ [ch]) = 10 * nat_of_str s + digit_of ch"
  by (simp add: nat_of_str_def)

lemma digit_of_digit_char: "d < 10 \<Longrightarrow> digit_of (digit_char d) = d"
proof -
  assume "d < 10"
  then have "d \<in> {0, 1, 2, 3, 4, 5, 6, 7, 8, 9}" by auto
  then show ?thesis by (auto simp: digit_of_def digit_char_def)
qed

lemma nat_of_str_str_nat: "nat_of_str (str_nat n) = n"
proof (induction n rule: str_nat.induct)
  case (1 n)
  show ?case
  proof (cases "n < 10")
    case True
    then show ?thesis
      by (subst str_nat.simps) (simp add: nat_of_str_def digit_of_digit_char)
  next
    case False
    then have "nat_of_str (str_nat (n div 10)) = n div 10" using 1 by simp
    then show ?thesis using False
      by (subst str_nat.simps) (simp add: nat_of_str_snoc digit_of_digit_char)
  qed
qed


lemma obstacle_keys:
  "map fst obstacle_cases = map (\<lambda>k. ''Case '' @ k)
     [''1'', ''2'', ''3'', ''4'', ''5'', ''6'', ''7'', ''8'', ''9'', ''10'', ''11'', ''12'', ''13'',
      ''14'', ''15'', ''16'', ''17'', ''18'', ''19'', ''20'', ''21'', ''22'', ''23'']"
  unfolding obstacle_cases_def by (simp only: list.map fst_conv append.simps)

lemma key_numbers:
  "list_all (\<lambda>s. 1 \<le> nat_of_str s \<and> nat_of_str s \<le> 23 \<and> hd s \<noteq> CHR ''-'')
     [''1'', ''2'', ''3'', ''4'', ''5'', ''6'', ''7'', ''8'', ''9'', ''10'', ''11'', ''12'', ''13'',
      ''14'', ''15'', ''16'', ''17'', ''18'', ''19'', ''20'', ''21'', ''22'', ''23'']"
  by (simp add: nat_of_str_def digit_of_def)

lemma get_obstacles_unknown:
  assumes "k < 1 \<or> 23 < k"
  shows "map_of obstacle_cases (''Case '' @ str_int k) = None"
proof (rule ccontr)
  let ?L = "[''1'', ''2'', ''3'', ''4'', ''5'', ''6'', ''7'', ''8'', ''9'', ''10'', ''11'', ''12'', ''13'',
      ''14'', ''15'', ''16'', ''17'', ''18'', ''19'', ''20'', ''21'', ''22'', ''23'']"
  assume "map_of obstacle_cases (''Case '' @ str_int k) \<noteq> None"
  then have "''Case '' @ str_int k \<in> set (map fst obstacle_cases)"
    by (simp add: map_of_eq_None_iff)
  then have "''Case '' @ str_int k \<in> (\<lambda>k. ''Case '' @ k) ` set ?L"
    unfolding obstacle_keys by (simp only: set_map)
  then obtain k' where k': "k' \<in> set ?L" "''Case '' @ str_int k = ''Case '' @ k'"
    by (rule imageE)
  from k'(2) have eq: "str_int k = k'" by (simp only: same_append_eq)
  from key_numbers k'(1) have num: "1 \<le> nat_of_str k' \<and> nat_of_str k' \<le> 23 \<and> hd k' \<noteq> CHR ''-''"
    unfolding list_all_iff by blast
  show False
  proof (cases "k < 0")
    case True
    then have "hd (str_int k) = CHR ''-''" by (simp add: str_int_def)
    then show False using num eq by simp
  next
    case False
    then have "nat_of_str (str_int k) = nat k"
      by (simp add: str_int_def nat_of_str_str_nat)
    then have "1 \<le> nat k \<and> nat k \<le> 23" using num eq by simp
    then show False using assms False by arith
  qed
qed

lemma get_obstacle_data_unknown:
  assumes "k < 1 \<or> 23 < k"
  shows "get_obstacle_data k = ([], [], [], [])"
  using get_obstacles_unknown[OF assms] by (simp add: get_obstacle_data_def get_obstacles_def)

lemma sim_setup_unknown:
  assumes "case_number a < 1 \<or> 23 < case_number a"
  shows "sim_setup a = Inl (if dt a = 0 then ZeroDivisionError else IndexError)"
  using get_obstacle_data_unknown[OF assms] by (simp add: sim_setup_def Let_def)

text \<open>
  Claim C2. A case number outside 1..23 names no entry of the scenario table. For it
  \<open>get_obstacle_data\<close> returns empty lists, and the set-up raises before the loop: at
  \<open>LOA_ob[0]\<close> (line 161), or already at the division by \<open>dt\<close> when that is 0. The run
  and \<open>run_simulation\<close>, in comparison mode or not, end in that error.
\<close>

theorem unknown_case_fails_at_setup:
  assumes "case_number a < 1 \<or> 23 < case_number a"
  shows "sim_setup a = Inl (if dt a = 0 then ZeroDivisionError else IndexError)
       \<and> sim_run E a = Inl (if dt a = 0 then ZeroDivisionError else IndexError)
       \<and> run_simulation E a return_data = Inl (if dt a = 0 then ZeroDivisionError else IndexError)"
proof -
  have s: "sim_setup a = Inl (if dt a = 0 then ZeroDivisionError else IndexError)"
    using assms by (rule sim_setup_unknown)
  have s0: "sim_setup (a\<lparr>llm := 0\<rparr>) = Inl (if dt a = 0 then ZeroDivisionError else IndexError)"
    using sim_setup_unknown[of "a\<lparr>llm := 0\<rparr>"] assms by simp
  have r: "sim_run E a = Inl (if dt a = 0 then ZeroDivisionError else IndexError)"
    unfolding sim_run_def s by simp
  have r0: "sim_run E (a\<lparr>llm := 0\<rparr>) = Inl (if dt a = 0 then ZeroDivisionError else IndexError)"
    unfolding sim_run_def s0 by simp
  have "run_simulation E a return_data = Inl (if dt a = 0 then ZeroDivisionError else IndexError)"
    unfolding run_simulation_def run_comparison_simulation_def simulate_def r r0 by simp
  with s r show ?thesis by simp
qed

theorem unknown_case_fails_at_setup_witness:
  "(case_number (demo_args\<lparr>case_number := 24\<rparr>) < 1 \<or> 23 < case_number (demo_args\<lparr>case_number := 24\<rparr>))
   \<and> sim_setup (demo_args\<lparr>case_number := 24\<rparr>) = Inl IndexError
   \<and> sim_run still_env (demo_args\<lparr>case_number := 24\<rparr>) = Inl IndexError
   \<and> run_simulation still_env (demo_args\<lparr>case_number := 24\<rparr>) False = Inl IndexError"
proof -
  have h: "case_number (demo_args\<lparr>case_number := 24\<rparr>) < 1 \<or> 23 < case_number (demo_args\<lparr>case_number := 24\<rparr>)"
    by simp
  have d: "dt (demo_args\<lparr>case_number := 24\<rparr>) \<noteq> 0" by (simp add: demo_args_def)
  show ?thesis
    using h d unknown_case_fails_at_setup[OF h, of still_env False] by simp
qed

section \<open>The loop body on well-shaped states\<close>

lemma mat_shape_nth: "mat_shape N n M \<Longrightarrow> k < N \<Longrightarrow> length (M ! k) = n"
  by (simp add: mat_shape_def list_all_length)

lemma mat_shape_length: "mat_shape N n M \<Longrightarrow> length M = N"
  by (simp add: mat_shape_def)

lemma mat_shape_update: "mat_shape N n M \<Longrightarrow> length v = n \<Longrightarrow> mat_shape N n (M[i := v])"
  by (auto simp: mat_shape_def list_all_iff dest!: set_update_subset_insert[THEN subsetD])

lemma mat_shape_mat_set: "mat_shape N n M \<Longrightarrow> mat_shape N n (mat_set M i j v)"
proof (cases "i < length M")
  case True
  assume m: "mat_shape N n M"
  then have "length ((M ! i)[j := v]) = n" using True by (simp add: mat_shape_def list_all_length)
  then show ?thesis unfolding mat_set_def using m by (rule mat_shape_update[rotated])
next
  case False
  assume "mat_shape N n M"
  then show ?thesis using False by (simp add: mat_set_def list_update_beyond)
qed

lemma mat_set_nth_other: "k \<noteq> i \<Longrightarrow> mat_set M i j v ! k = M ! k"
  by (simp add: mat_set_def)

lemma mat_set_nth_same: "i < length M \<Longrightarrow> mat_set M i j v ! i = (M ! i)[j := v]"
  by (simp add: mat_set_def)

lemma np_assign_row_ok:
  "mat_shape N n M \<Longrightarrow> i < N \<Longrightarrow> length v = n \<Longrightarrow> np_assign_row M i v = Inr (M[i := v])"
  by (simp add: np_assign_row_def mat_shape_def list_all_length)

lemma mat_shape_zeros2: "mat_shape N n (zeros2 N n)"
  by (simp add: mat_shape_def zeros2_def list_all_length)

lemma mat_shape_fill: "mat_shape N n M \<Longrightarrow> mat_shape N n (np_fill_rows M k v)"
  by (auto simp: mat_shape_def np_fill_rows_def list_all_iff dest: in_set_takeD in_set_dropD)

lemma shaped_init: "length Xob0 = length Yob0 \<Longrightarrow> shaped N (length Xob0) (sim_init N Xob0 Yob0)"
  by (simp add: shaped_def sim_init_def Let_def zeros_def mat_shape_zeros2 mat_shape_fill)

lemma reactive_avoidance_lengths:
  assumes "length x_ob = length y_ob"
  shows "\<exists>oa wb wr d be. reactive_avoidance x_ob y_ob x y p t = Inr (oa, wb, wr, d, be)
            \<and> length d = length x_ob \<and> length be = length x_ob \<and> (x_ob = [] \<longrightarrow> oa = 0)"
  using assms by (simp add: reactive_avoidance_same_length Let_def zmf_def)

lemma np_assign_row_shape:
  "np_assign_row M i v = Inr M' \<Longrightarrow> mat_shape N n M \<Longrightarrow> mat_shape N n M'"
proof -
  assume a: "np_assign_row M i v = Inr M'" and m: "mat_shape N n M"
  from a have i: "i < length M" by (auto simp: np_assign_row_def split: if_splits)
  then have n: "length (M ! i) = n" using m by (simp add: mat_shape_def list_all_length)
  from a i n have "M' = M[i := v] \<and> length v = n \<or> M' = M[i := replicate n (hd v)]"
    by (auto simp: np_assign_row_def split: if_splits)
  then show ?thesis using m by (auto intro: mat_shape_update)
qed

lemma np_assign_row_other:
  "np_assign_row M i v = Inr M' \<Longrightarrow> k \<noteq> i \<Longrightarrow> M' ! k = M ! k"
  by (auto simp: np_assign_row_def split: if_splits)

lemma np_assign_row_same:
  "np_assign_row M i v = Inr M' \<Longrightarrow> length v = length (M ! i) \<Longrightarrow> M' ! i = v"
  by (auto simp: np_assign_row_def split: if_splits)

lemma reactive_avoidance_nil [simp]:
  "reactive_avoidance [] [] x y p t = Inr (0, [], [], [], [])"
  by (simp add: reactive_avoidance_same_length Let_def zmf_def)

lemma shaped_Xob_nil: "shaped N 0 s \<Longrightarrow> Xob s = [] \<and> Yob s = []"
  by (simp add: shaped_def)

lemma guidance_block_facts:
  assumes g: "guidance_block E c i s = Inr s1" and sh: "shaped N n s" and i: "i < N"
  shows "shaped N n s1
    \<and> (\<forall>k. k \<noteq> i \<longrightarrow> row_at s1 k = row_at s k)
    \<and> psi_p s1 ! i = psi_wp s1 ! i + Kdir s ! i * psi_oa s1 ! i
    \<and> (n = 0 \<longrightarrow> psi_oa s1 ! i = 0)
    \<and> Kdir s1 = Kdir s \<and> cpa_part s1 = cpa_part s \<and> Risk s1 = Risk s
    \<and> Xobs s1 = Xobs s \<and> Yobs s1 = Yobs s \<and> Xob s1 = Xob s \<and> Yob s1 = Yob s"
proof -
  obtain X0 X1 X2 X3 X4 X5 where X: "X_state s = (X0, X1, X2, X3, X4, X5)"
    by (cases "X_state s") auto
  have l: "i < length (psi_wp s)" "i < length (psi_oa s)" "i < length (psi_p s)"
    using sh i by (simp_all add: shaped_def)
  have z: "n = 0 \<Longrightarrow> Xob s = [] \<and> Yob s = []" using sh by (simp add: shaped_def)
  have sD: "mat_shape N n (Distance_ob s)" and sB: "mat_shape N n (Bearing_ob s)"
    using sh by (simp_all add: shaped_def)
  have 1: "mat_shape N n (Distance_ob s1) \<and> mat_shape N n (Bearing_ob s1)"
    using g np_assign_row_shape[OF _ sD] np_assign_row_shape[OF _ sB]
    by (auto simp: guidance_block_def Let_def X ebind_eq_Inr split: prod.splits)
  have 2: "Xob s1 = Xob s \<and> Yob s1 = Yob s
      \<and> length (x_arr s1) = length (x_arr s) \<and> length (y_arr s1) = length (y_arr s)
      \<and> length (psi_p s1) = length (psi_p s) \<and> length (psi_wp s1) = length (psi_wp s)
      \<and> length (psi_oa s1) = length (psi_oa s) \<and> Kdir s1 = Kdir s
      \<and> Xobs s1 = Xobs s \<and> Yobs s1 = Yobs s \<and> Vxobs s1 = Vxobs s \<and> Vyobs s1 = Vyobs s
      \<and> cpa_part s1 = cpa_part s
      \<and> DCPA2 s1 = DCPA2 s \<and> TCPA2 s1 = TCPA2 s \<and> Vrel2 s1 = Vrel2 s
      \<and> alpha2 s1 = alpha2 s \<and> psi_Vrel2 s1 = psi_Vrel2 s \<and> Risk s1 = Risk s"
    using g
    by (auto simp: guidance_block_def Let_def X ebind_eq_Inr cpa_part_def split: prod.splits)
  have 3: "\<forall>k. k \<noteq> i \<longrightarrow> row_at s1 k = row_at s k"
    using g
    by (auto simp: guidance_block_def Let_def X ebind_eq_Inr row_at_def np_assign_row_other
          split: prod.splits)
  have 4: "psi_p s1 ! i = psi_wp s1 ! i + Kdir s ! i * psi_oa s1 ! i"
    using g l
    by (auto simp: guidance_block_def Let_def X ebind_eq_Inr split: prod.splits)
  have 5: "n = 0 \<longrightarrow> psi_oa s1 ! i = 0"
    using g l z
    by (auto simp: guidance_block_def Let_def X ebind_eq_Inr split: prod.splits)
  have "shaped N n s1"
    using sh 1 2 unfolding shaped_def cpa_part_def by simp
  then show ?thesis using 2 3 4 5 by simp
qed

lemma guidance_block_ok:
  assumes sh: "shaped N n s" and i: "i < N"
  shows "\<exists>s1. guidance_block E c i s = Inr s1"
proof -
  obtain X0 X1 X2 X3 X4 X5 where X: "X_state s = (X0, X1, X2, X3, X4, X5)"
    by (cases "X_state s") auto
  have l: "length (Xob s) = n" "length (Yob s) = n"
    and sD: "mat_shape N n (Distance_ob s)" and sB: "mat_shape N n (Bearing_ob s)"
    using sh by (simp_all add: shaped_def)
  show ?thesis
    using l i
    by (simp add: guidance_block_def Let_def X reactive_avoidance_same_length zmf_def
          np_assign_row_ok[OF sD] np_assign_row_ok[OF sB])
qed

lemma control_block_facts:
  "shaped N n (control_block E a c i s) = shaped N n s
   \<and> row_at (control_block E a c i s) k = row_at s k
   \<and> Kdir (control_block E a c i s) = Kdir s
   \<and> heading_part (control_block E a c i s) = heading_part s
   \<and> position_part (control_block E a c i s) = position_part s
   \<and> cpa_part (control_block E a c i s) = cpa_part s
   \<and> Risk (control_block E a c i s) = Risk s
   \<and> Distance_ob (control_block E a c i s) = Distance_ob s
   \<and> Xob (control_block E a c i s) = Xob s \<and> Yob (control_block E a c i s) = Yob s"
  by (simp add: control_block_def Let_def shaped_def row_at_def heading_part_def position_part_def
        cpa_part_def split: prod.splits)

lemma obstacle_block_ok:
  assumes sh: "shaped N n s" and i: "i < N" and os: "obstacle_sim_shaped E a c n"
  shows "\<exists>s1. obstacle_block E a c i s = Inr s1"
proof -
  obtain X' Y' Vx Vy where o: "obstacle_sim E (Xob s) (Yob s) (Vob c) (psiob c) (dt a) = (X', Y', Vx, Vy)"
    by (cases "obstacle_sim E (Xob s) (Yob s) (Vob c) (psiob c) (dt a)") auto
  have "length (Xob s) = n \<and> length (Yob s) = n" using sh by (simp add: shaped_def)
  with os o have l: "length X' = n" "length Y' = n" "length Vx = n" "length Vy = n"
    unfolding obstacle_sim_shaped_def by fastforce+
  have m: "mat_shape N n (Xobs s)" "mat_shape N n (Yobs s)" "mat_shape N n (Vxobs s)" "mat_shape N n (Vyobs s)"
    using sh by (simp_all add: shaped_def)
  show ?thesis
    using l i
    by (simp add: obstacle_block_def o np_assign_row_ok[OF m(1)] np_assign_row_ok[OF m(2)]
          np_assign_row_ok[OF m(3)] np_assign_row_ok[OF m(4)])
qed

lemma obstacle_block_facts:
  assumes g: "obstacle_block E a c i s = Inr s1" and sh: "shaped N n s" and i: "i < N"
    and os: "obstacle_sim_shaped E a c n"
  shows "shaped N n s1
    \<and> (\<forall>k. k \<noteq> i \<longrightarrow> row_at s1 k = row_at s k)
    \<and> Kdir s1 = Kdir s \<and> heading_part s1 = heading_part s
    \<and> x_arr s1 = x_arr s \<and> y_arr s1 = y_arr s
    \<and> cpa_part s1 = cpa_part s \<and> Risk s1 = Risk s \<and> Distance_ob s1 = Distance_ob s"
proof -
  obtain X' Y' Vx Vy where o: "obstacle_sim E (Xob s) (Yob s) (Vob c) (psiob c) (dt a) = (X', Y', Vx, Vy)"
    by (cases "obstacle_sim E (Xob s) (Yob s) (Vob c) (psiob c) (dt a)") auto
  have "length (Xob s) = n \<and> length (Yob s) = n" using sh by (simp add: shaped_def)
  with os o have l: "length X' = n" "length Y' = n" "length Vx = n" "length Vy = n"
    unfolding obstacle_sim_shaped_def by fastforce+
  have m: "mat_shape N n (Xobs s)" "mat_shape N n (Yobs s)" "mat_shape N n (Vxobs s)" "mat_shape N n (Vyobs s)"
    using sh by (simp_all add: shaped_def)
  have s1: "s1 = s\<lparr>Xob := X', Yob := Y', Xobs := (Xobs s)[i := X'], Yobs := (Yobs s)[i := Y'],
               Vxobs := (Vxobs s)[i := Vx], Vyobs := (Vyobs s)[i := Vy]\<rparr>"
    using g l i
    by (simp add: obstacle_block_def o np_assign_row_ok[OF m(1)] np_assign_row_ok[OF m(2)]
          np_assign_row_ok[OF m(3)] np_assign_row_ok[OF m(4)])
  have "shaped N n s1"
    using sh l m by (simp add: s1 shaped_def mat_shape_update)
  then show ?thesis
    by (simp add: s1 row_at_def heading_part_def cpa_part_def)
qed

lemma llm_block_facts:
  "shaped N n (llm_block E a i s) = shaped N n s
   \<and> (k \<noteq> i \<longrightarrow> row_at (llm_block E a i s) k = row_at s k)
   \<and> (k \<noteq> i \<longrightarrow> Kdir (llm_block E a i s) ! k = Kdir s ! k)
   \<and> heading_part (llm_block E a i s) = heading_part s
   \<and> position_part (llm_block E a i s) = position_part s
   \<and> cpa_part (llm_block E a i s) = cpa_part s
   \<and> Risk (llm_block E a i s) = Risk s
   \<and> Distance_ob (llm_block E a i s) = Distance_ob s"
  by (simp add: llm_block_def Let_def shaped_def row_at_def heading_part_def position_part_def
        cpa_part_def)

lemma risk_analysis_plain_zero: "risk_analysis_plain E c 0 js s = Inr s"
  by (induction js arbitrary: s) simp_all

lemma risk_analysis_anim_pos:
  "1 \<le> i \<Longrightarrow> risk_analysis_anim E c i js s = risk_analysis_plain E c i js s"
  by (induction js arbitrary: s) simp_all

lemma cpa_from_positions_cong:
  "position_part s = position_part s' \<Longrightarrow> cpa_from_positions E c s k j = cpa_from_positions E c s' k j"
  by (simp add: position_part_def cpa_from_positions_def)

lemma cpa_update_facts:
  "(shaped N n s \<longrightarrow> shaped N n (cpa_update E c i j s))
   \<and> (k \<noteq> i \<longrightarrow> row_at (cpa_update E c i j s) k = row_at s k)
   \<and> Kdir (cpa_update E c i j s) = Kdir s
   \<and> heading_part (cpa_update E c i j s) = heading_part s
   \<and> position_part (cpa_update E c i j s) = position_part s
   \<and> Risk (cpa_update E c i j s) = Risk s
   \<and> Xob (cpa_update E c i j s) = Xob s \<and> Yob (cpa_update E c i j s) = Yob s"
  by (simp add: cpa_update_def Let_def shaped_def row_at_def heading_part_def position_part_def
        mat_shape_mat_set mat_set_nth_other split: prod.splits)

lemma cpa_update_recorded:
  assumes "shaped N n s" "i < N"
  shows "cpa_recorded (cpa_update E c i j s) i j' =
           (if j' = j \<and> j < n then cpa_from_positions E c s i j else cpa_recorded s i j')"
proof -
  have l: "length (DCPA s) = N" "length (TCPA s) = N" "length (Vrel s) = N"
          "length (alpha s) = N" "length (psi_Vrel s) = N"
          "length (DCPA s ! i) = n" "length (TCPA s ! i) = n" "length (Vrel s ! i) = n"
          "length (alpha s ! i) = n" "length (psi_Vrel s ! i) = n"
    using assms by (simp_all add: shaped_def mat_shape_def list_all_length)
  show ?thesis
    using l assms(2)
    by (auto simp: cpa_update_def Let_def cpa_recorded_def cpa_from_positions_def mat_set_nth_same
          list_update_beyond split: prod.splits)
qed

lemma risk_update_facts:
  "(shaped N n s \<longrightarrow> shaped N n (risk_update E i j s))
   \<and> (k \<noteq> i \<longrightarrow> row_at (risk_update E i j s) k = row_at s k)
   \<and> Kdir (risk_update E i j s) = Kdir s
   \<and> heading_part (risk_update E i j s) = heading_part s
   \<and> position_part (risk_update E i j s) = position_part s
   \<and> cpa_part (risk_update E i j s) = cpa_part s
   \<and> Distance_ob (risk_update E i j s) = Distance_ob s
   \<and> Xob (risk_update E i j s) = Xob s \<and> Yob (risk_update E i j s) = Yob s"
  by (simp add: risk_update_def shaped_def row_at_def heading_part_def position_part_def cpa_part_def
        mat_shape_mat_set mat_set_nth_other)

lemma cpa_recorded_cong: "cpa_part s = cpa_part s' \<Longrightarrow> cpa_recorded s k j = cpa_recorded s' k j"
  by (simp add: cpa_part_def cpa_recorded_def)

lemma shaped_width: "shaped N n s \<Longrightarrow> i < N \<Longrightarrow> length (Xobs s ! i) = n \<and> length (DCPA s ! i) = n"
  by (simp add: shaped_def mat_shape_def list_all_length)

lemma risk_analysis_plain_facts:
  assumes "shaped N n s" "i < N" "1 \<le> i" "\<forall>j\<in>set js. j < n"
  shows "\<exists>r. risk_analysis_plain E c i js s = Inr r \<and> shaped N n r
     \<and> (\<forall>k. k \<noteq> i \<longrightarrow> row_at r k = row_at s k)
     \<and> Kdir r = Kdir s \<and> heading_part r = heading_part s \<and> position_part r = position_part s
     \<and> Xob r = Xob s \<and> Yob r = Yob s
     \<and> (\<forall>j. cpa_recorded r i j = (if j \<in> set js then cpa_from_positions E c s i j else cpa_recorded s i j))"
  using assms
proof (induction js arbitrary: s)
  case Nil
  then show ?case by simp
next
  case (Cons j js)
  let ?s = "risk_update E i j (cpa_update E c i j s)"
  have jn: "j < n" using Cons.prems by simp
  have sh: "shaped N n ?s"
    using Cons.prems(1) risk_update_facts[of N n "cpa_update E c i j s" E i j]
      cpa_update_facts[of N n s E c i j] by simp
  have pos: "position_part ?s = position_part s"
    using risk_update_facts[of N n "cpa_update E c i j s" E i j i]
      cpa_update_facts[of N n s E c i j i] by simp
  from Cons.IH[OF sh Cons.prems(2,3)] Cons.prems(4)
  obtain r where r: "risk_analysis_plain E c i js ?s = Inr r" "shaped N n r"
     "\<forall>k. k \<noteq> i \<longrightarrow> row_at r k = row_at ?s k"
     "Kdir r = Kdir ?s" "heading_part r = heading_part ?s" "position_part r = position_part ?s"
     "Xob r = Xob ?s" "Yob r = Yob ?s"
     "\<forall>j'. cpa_recorded r i j' = (if j' \<in> set js then cpa_from_positions E c ?s i j' else cpa_recorded ?s i j')"
    by auto
  have run: "risk_analysis_plain E c i (j # js) s = Inr r"
    using r(1) Cons.prems(1,2,3) jn shaped_width[OF Cons.prems(1,2)] by simp
  have rows: "\<forall>k. k \<noteq> i \<longrightarrow> row_at r k = row_at s k"
  proof (intro allI impI)
    fix k assume k: "k \<noteq> i"
    then show "row_at r k = row_at s k"
      using r(3) risk_update_facts[of N n "cpa_update E c i j s" E i j k]
        cpa_update_facts[of N n s E c i j k] by simp
  qed
  have keep: "Kdir r = Kdir s \<and> heading_part r = heading_part s \<and> position_part r = position_part s
     \<and> Xob r = Xob s \<and> Yob r = Yob s"
    using r(4-8) risk_update_facts[of N n "cpa_update E c i j s" E i j i]
      cpa_update_facts[of N n s E c i j i] by simp
  have rec: "\<forall>j'. cpa_recorded r i j' = (if j' \<in> set (j # js) then cpa_from_positions E c s i j' else cpa_recorded s i j')"
  proof
    fix j'
    have a: "cpa_recorded ?s i j' = cpa_recorded (cpa_update E c i j s) i j'"
      using risk_update_facts[of N n "cpa_update E c i j s" E i j i] by (intro cpa_recorded_cong) simp
    have b: "cpa_from_positions E c ?s i j' = cpa_from_positions E c s i j'"
      using pos by (rule cpa_from_positions_cong)
    show "cpa_recorded r i j' = (if j' \<in> set (j # js) then cpa_from_positions E c s i j' else cpa_recorded s i j')"
      using r(9)[rule_format, of j'] a b cpa_update_recorded[OF Cons.prems(1,2), of E c j j'] jn
      by auto
  qed
  show ?case using run r(2) rows keep rec by blast
qed

lemma risk_analysis_anim_zero_facts:
  assumes "shaped N n s" "0 < N" "\<forall>j\<in>set js. j < n"
  shows "\<exists>R. risk_analysis_anim E c 0 js s = Inr (s\<lparr>Risk := R\<rparr>) \<and> mat_shape N n R
     \<and> (\<forall>k. k \<noteq> 0 \<longrightarrow> R ! k = Risk s ! k)
     \<and> (\<forall>j. R ! 0 ! j = (if j \<in> set js
            then risk_calculations E (DCPA s ! 0 ! j) (TCPA s ! 0 ! j) (Distance_ob s ! 0 ! j) (Vrel s ! 0 ! j)
            else Risk s ! 0 ! j))"
  using assms
proof (induction js arbitrary: s)
  case Nil
  have "mat_shape N n (Risk s)" using Nil.prems(1) by (simp add: shaped_def)
  then show ?case by (intro exI[of _ "Risk s"]) simp
next
  case (Cons j js)
  let ?v = "risk_calculations E (DCPA s ! 0 ! j) (TCPA s ! 0 ! j) (Distance_ob s ! 0 ! j) (Vrel s ! 0 ! j)"
  let ?s = "risk_update E 0 j s"
  have jn: "j < n" using Cons.prems by simp
  have m: "mat_shape N n (Risk s)" using Cons.prems(1) by (simp add: shaped_def)
  have w: "length (DCPA s ! 0) = n" using shaped_width[OF Cons.prems(1,2)] by simp
  have sh: "shaped N n ?s" using Cons.prems(1) risk_update_facts[of N n s E 0 j] by simp
  have se: "?s = s\<lparr>Risk := mat_set (Risk s) 0 j ?v\<rparr>" by (simp add: risk_update_def)
  from Cons.IH[OF sh Cons.prems(2)] Cons.prems(3)
  obtain R where R: "risk_analysis_anim E c 0 js ?s = Inr (?s\<lparr>Risk := R\<rparr>)" "mat_shape N n R"
     "\<forall>k. k \<noteq> 0 \<longrightarrow> R ! k = Risk ?s ! k"
     "\<forall>j'. R ! 0 ! j' = (if j' \<in> set js
            then risk_calculations E (DCPA ?s ! 0 ! j') (TCPA ?s ! 0 ! j') (Distance_ob ?s ! 0 ! j') (Vrel ?s ! 0 ! j')
            else Risk ?s ! 0 ! j')"
    by auto
  have run: "risk_analysis_anim E c 0 (j # js) s = Inr (s\<lparr>Risk := R\<rparr>)"
    using R(1) jn w by (simp add: se)
  have rows: "\<forall>k. k \<noteq> 0 \<longrightarrow> R ! k = Risk s ! k"
    using R(3) by (simp add: se mat_set_nth_other)
  have l0: "0 < length (Risk s)" "length (Risk s ! 0) = n"
    using m Cons.prems(2) by (simp_all add: mat_shape_def list_all_length)
  have vals: "\<forall>j'. R ! 0 ! j' = (if j' \<in> set (j # js)
            then risk_calculations E (DCPA s ! 0 ! j') (TCPA s ! 0 ! j') (Distance_ob s ! 0 ! j') (Vrel s ! 0 ! j')
            else Risk s ! 0 ! j')"
    using R(4) l0 jn by (auto simp: se mat_set_nth_same nth_list_update)
  show ?case using run R(2) rows vals by blast
qed

lemma risk_phase_facts:
  assumes rk: "rk = risk_analysis_plain \<or> rk = risk_analysis_anim"
    and sh: "shaped N n s" and i: "i < N" and js: "\<forall>j\<in>set js. j < n"
  shows "\<exists>r. rk E c i js s = Inr r \<and> shaped N n r
     \<and> (\<forall>k. k \<noteq> i \<longrightarrow> row_at r k = row_at s k)
     \<and> Kdir r = Kdir s \<and> heading_part r = heading_part s \<and> position_part r = position_part s
     \<and> (1 \<le> i \<longrightarrow> (\<forall>j\<in>set js. cpa_recorded r i j = cpa_from_positions E c s i j))
     \<and> (i = 0 \<longrightarrow> cpa_part r = cpa_part s)"
proof (cases "1 \<le> i")
  case True
  have e: "rk E c i js s = risk_analysis_plain E c i js s"
    using rk True by (auto simp: risk_analysis_anim_pos)
  from risk_analysis_plain_facts[OF sh i True js, of E c]
  show ?thesis unfolding e using True by auto
next
  case False
  then have i0: "i = 0" by simp
  from rk show ?thesis
  proof
    assume "rk = risk_analysis_plain"
    then show ?thesis using sh i0 by (simp add: risk_analysis_plain_zero)
  next
    assume a: "rk = risk_analysis_anim"
    from risk_analysis_anim_zero_facts[OF sh _ js, of E c] i i0
    obtain R where R: "risk_analysis_anim E c 0 js s = Inr (s\<lparr>Risk := R\<rparr>)" "mat_shape N n R"
      "\<forall>k. k \<noteq> 0 \<longrightarrow> R ! k = Risk s ! k"
      by auto
    have "shaped N n (s\<lparr>Risk := R\<rparr>)" using sh R(2) by (simp add: shaped_def)
    moreover have "\<forall>k. k \<noteq> i \<longrightarrow> row_at (s\<lparr>Risk := R\<rparr>) k = row_at s k"
      using R(3) i0 by (simp add: row_at_def)
    ultimately show ?thesis
      using R(1) a i0 by (simp add: heading_part_def position_part_def cpa_part_def)
  qed
qed

lemma step_gen_facts:
  assumes rk: "rk = risk_analysis_plain \<or> rk = risk_analysis_anim"
    and sh: "shaped N n s" and i: "i < N" and os: "obstacle_sim_shaped E a c n"
  shows "\<exists>s'. ebind (guidance_block E c i s) (\<lambda>s1.
               ebind (obstacle_block E a c i (control_block E a c i s1)) (\<lambda>s2.
               ebind (rk E c i [0..<length (Xob s2)] s2) (\<lambda>s3.
                 let s4 = llm_block E a i s3
                 in Inr (s4\<lparr>t_sim := t_sim s4 + dt a\<rparr>)))) = Inr s'
     \<and> shaped N n s'
     \<and> (\<forall>k. k \<noteq> i \<longrightarrow> row_at s' k = row_at s k)
     \<and> psi_p s' ! i = psi_wp s' ! i + Kdir s ! i * psi_oa s' ! i
     \<and> (n = 0 \<longrightarrow> psi_oa s' ! i = 0)
     \<and> (1 \<le> i \<longrightarrow> (\<forall>j<n. cpa_recorded s' i j = cpa_from_positions E c s' i j))
     \<and> (i = 0 \<longrightarrow> cpa_part s' = cpa_part s)"
proof -
  from guidance_block_ok[OF sh i, of E c] obtain s1 where g: "guidance_block E c i s = Inr s1" ..
  note G = guidance_block_facts[OF g sh i]
  define s2 where "s2 = control_block E a c i s1"
  note C = control_block_facts[of N n E a c i s1, folded s2_def]
  have sh2: "shaped N n s2" using G C by simp
  from obstacle_block_ok[OF sh2 i os] obtain s3 where ob: "obstacle_block E a c i s2 = Inr s3" ..
  note O = obstacle_block_facts[OF ob sh2 i os]
  have sh3: "shaped N n s3" using O by simp
  have len: "length (Xob s3) = n" using sh3 by (simp add: shaped_def)
  have js: "\<forall>j\<in>set [0..<length (Xob s3)]. j < n" using len by simp
  from risk_phase_facts[OF rk sh3 i js, of E c]
  obtain r where r: "rk E c i [0..<length (Xob s3)] s3 = Inr r" "shaped N n r"
     "\<forall>k. k \<noteq> i \<longrightarrow> row_at r k = row_at s3 k"
     "Kdir r = Kdir s3" "heading_part r = heading_part s3" "position_part r = position_part s3"
     "1 \<le> i \<longrightarrow> (\<forall>j\<in>set [0..<length (Xob s3)]. cpa_recorded r i j = cpa_from_positions E c s3 i j)"
     "i = 0 \<longrightarrow> cpa_part r = cpa_part s3"
    by auto
  define s4 where "s4 = llm_block E a i r"
  define s' where "s' = s4\<lparr>t_sim := t_sim s4 + dt a\<rparr>"
  have L: "shaped N n s4 = shaped N n r" "heading_part s4 = heading_part r"
     "position_part s4 = position_part r" "cpa_part s4 = cpa_part r"
     "\<And>k. k \<noteq> i \<Longrightarrow> row_at s4 k = row_at r k"
    using llm_block_facts[of N n E a i r] unfolding s4_def by simp_all
  have T: "shaped N n s' = shaped N n s4" "heading_part s' = heading_part s4"
     "position_part s' = position_part s4" "cpa_part s' = cpa_part s4"
     "\<And>k. row_at s' k = row_at s4 k"
    by (simp_all add: s'_def shaped_def heading_part_def position_part_def cpa_part_def row_at_def)
  have run: "ebind (guidance_block E c i s) (\<lambda>s1.
               ebind (obstacle_block E a c i (control_block E a c i s1)) (\<lambda>s2.
               ebind (rk E c i [0..<length (Xob s2)] s2) (\<lambda>s3.
                 let s4 = llm_block E a i s3
                 in Inr (s4\<lparr>t_sim := t_sim s4 + dt a\<rparr>)))) = Inr s'"
    by (simp add: g ob[unfolded s2_def] r(1) s'_def s4_def Let_def)
  have shaped': "shaped N n s'" using T L r(2) by simp
  have rows: "\<forall>k. k \<noteq> i \<longrightarrow> row_at s' k = row_at s k"
  proof (intro allI impI)
    fix k assume k: "k \<noteq> i"
    have "row_at s' k = row_at r k" using T(5) L(5)[OF k] by simp
    also have "\<dots> = row_at s3 k" using r(3) k by simp
    also have "\<dots> = row_at s2 k" using O k by simp
    also have "\<dots> = row_at s1 k" using control_block_facts[of N n E a c i s1 k] by (simp add: s2_def)
    also have "\<dots> = row_at s k" using G k by simp
    finally show "row_at s' k = row_at s k" .
  qed
  have hp: "heading_part s' = heading_part s1"
    using T(2) L(2) r(5) O C by simp
  then have head: "psi_p s' ! i = psi_wp s' ! i + Kdir s ! i * psi_oa s' ! i"
    and z: "n = 0 \<longrightarrow> psi_oa s' ! i = 0"
    using G by (simp_all add: heading_part_def)
  have pp: "position_part s' = position_part s3" using T(3) L(3) r(6) by simp
  have cp: "cpa_part s' = cpa_part r" using T(4) L(4) by simp
  have cpa: "1 \<le> i \<longrightarrow> (\<forall>j<n. cpa_recorded s' i j = cpa_from_positions E c s' i j)"
  proof (intro impI allI)
    fix j assume i1: "1 \<le> i" and j: "j < n"
    have "cpa_recorded s' i j = cpa_recorded r i j" using cp by (rule cpa_recorded_cong)
    also have "\<dots> = cpa_from_positions E c s3 i j" using r(7) i1 j len by simp
    also have "\<dots> = cpa_from_positions E c s' i j" using pp[symmetric] by (rule cpa_from_positions_cong)
    finally show "cpa_recorded s' i j = cpa_from_positions E c s' i j" .
  qed
  have c0: "i = 0 \<longrightarrow> cpa_part s' = cpa_part s"
    using cp r(8) O C G by simp
  show ?thesis using run shaped' rows head z cpa c0 by blast
qed

lemma sim_step_facts:
  assumes sh: "shaped N n s" and i: "i < N" and os: "obstacle_sim_shaped E a c n"
  shows "\<exists>s'. sim_step E a c i s = Inr s'
     \<and> shaped N n s'
     \<and> (\<forall>k. k \<noteq> i \<longrightarrow> row_at s' k = row_at s k)
     \<and> psi_p s' ! i = psi_wp s' ! i + Kdir s ! i * psi_oa s' ! i
     \<and> (n = 0 \<longrightarrow> psi_oa s' ! i = 0)
     \<and> (1 \<le> i \<longrightarrow> (\<forall>j<n. cpa_recorded s' i j = cpa_from_positions E c s' i j))
     \<and> (i = 0 \<longrightarrow> cpa_part s' = cpa_part s)"
proof (cases "no_animation a")
  case True
  then have "sim_step E a c i s = step_plain E a c i s" by (simp add: sim_step_def)
  then show ?thesis
    unfolding step_plain_def using step_gen_facts[OF disjI1[OF refl] sh i os] by simp
next
  case False
  then have "sim_step E a c i s = step_anim E a c i s" by (simp add: sim_step_def)
  then show ?thesis
    unfolding step_anim_def using step_gen_facts[OF disjI2[OF refl] sh i os] by simp
qed

lemma sim_loop_rule:
  assumes "I k s" "k \<le> N"
    and "\<And>i s. k \<le> i \<Longrightarrow> i < N \<Longrightarrow> I i s \<Longrightarrow> \<exists>s'. step i s = Inr s' \<and> I (Suc i) s'"
  shows "\<exists>r. sim_loop step [k..<N] s = Inr r \<and> I N r"
  using assms
proof (induction "N - k" arbitrary: k s)
  case 0
  then show ?case by simp
next
  case (Suc d)
  then have kN: "k < N" by simp
  from Suc.prems(3)[OF le_refl kN Suc.prems(1)]
  obtain s' where s': "step k s = Inr s'" "I (Suc k) s'" by blast
  have d: "d = N - Suc k" using Suc.hyps(2) by simp
  have "\<exists>r. sim_loop step [Suc k..<N] s' = Inr r \<and> I N r"
  proof (rule Suc.hyps(1)[OF d s'(2)])
    show "Suc k \<le> N" using kN by simp
    show "\<And>i s. Suc k \<le> i \<Longrightarrow> i < N \<Longrightarrow> I i s \<Longrightarrow> \<exists>s'. step i s = Inr s' \<and> I (Suc i) s'"
      using Suc.prems(3) by simp
  qed
  then show ?case using s'(1) kN by (simp add: upt_conv_Cons)
qed


end
